theory Spec2Isabelle
  imports Complex_Main
begin

section \<open>The dashboard's retrieval layer (dashboard.py)\<close>

text \<open>
  The module talks to two things outside itself: the scoring service, through
  \<^verbatim>\<open>requests.get\<close>, and the scratch directory \<^verbatim>\<open>./data/tmp/\<close>, through
  \<^verbatim>\<open>os.path.exists\<close> and \<^verbatim>\<open>open(.., 'wb')\<close>. Both are made explicit: every function
  takes the service as a parameter and the world (files and the log of requests issued)
  as an argument, and returns its result, or the exception it raises, with the new world.

  The scratch directory exists and can be written (lines 10 and 11 create it when the
  module is loaded), so opening a file for writing does not fail. The decorator
  \<^verbatim>\<open>st.cache\<close> of the two start-up requests only saves repeating them; the functions
  are modelled as they run when they are called. The page below line 192 is layout.
\<close>

subsection \<open>Values\<close>

type_synonym bytes = "char list"

text \<open>The Python exceptions the module can raise or let through.\<close>

datatype error =
    Timeout            \<comment> \<open>\<^verbatim>\<open>requests.exceptions.Timeout\<close>, connect or read\<close>
  | ConnectionError    \<comment> \<open>\<^verbatim>\<open>requests.exceptions.ConnectionError\<close>\<close>
  | JSONDecodeError    \<comment> \<open>\<^verbatim>\<open>r.json()\<close> on a body that is not JSON\<close>
  | KeyError           \<comment> \<open>a missing key of a dict\<close>
  | TypeError          \<comment> \<open>subscripting or comparing a value of the wrong type\<close>
  | ValueError         \<comment> \<open>\<^verbatim>\<open>list.index\<close> of an element that is not in the list\<close>

text \<open>A Python float: the finite values are rationals, hence reals.\<close>

datatype pyfloat = Finite real | PosInf | NegInf | NaN

datatype json =
    JNull
  | JBool bool
  | JNum pyfloat
  | JStr string
  | JArr "json list"
  | JObj "(string \<times> json) list"

text \<open>The values the module puts into a query string.\<close>

datatype param = PInt int | PStr string | PBool bool

subsection \<open>The remote service and the world\<close>

text \<open>One call of \<^verbatim>\<open>requests.get(url, params=.., stream=.., timeout=..)\<close>.
  \<open>get_timeout = None\<close> is a call without the \<^verbatim>\<open>timeout\<close> argument.\<close>

record http_get =
  get_url :: string
  get_params :: "(string \<times> param) list"
  get_stream :: bool
  get_timeout :: "nat option"

text \<open>
  The response object. \<open>r_raw\<close> holds the bytes that reading \<^verbatim>\<open>r.raw\<close> delivers and
  \<open>r_raw_error\<close> the exception the read raises after them, if the transfer breaks
  (a read timeout in the middle of the body); \<open>r_json\<close> is what \<^verbatim>\<open>r.json()\<close> gives.
  \<^verbatim>\<open>requests.get\<close> does not raise on a status that is not a success: the module never
  calls \<^verbatim>\<open>raise_for_status\<close> and never reads \<open>status_code\<close>.
\<close>

record response =
  status_code :: nat
  r_raw :: bytes
  r_raw_error :: "error option"
  r_json :: "error + json"

datatype reply = Raises error | Responds response

text \<open>The service answers a request knowing the requests issued before it.\<close>

type_synonym server = "http_get list \<Rightarrow> http_get \<Rightarrow> reply"

record world =
  files :: "string \<rightharpoonup> bytes"
  calls :: "http_get list"

definition requests_get :: "server \<Rightarrow> http_get \<Rightarrow> world \<Rightarrow> (error + response) \<times> world" where
  "requests_get srv rq w =
     (case srv (calls w) rq of
        Raises e \<Rightarrow> (Inl e, w\<lparr>calls := calls w @ [rq]\<rparr>)
      | Responds r \<Rightarrow> (Inr r, w\<lparr>calls := calls w @ [rq]\<rparr>))"

definition os_path_exists :: "world \<Rightarrow> string \<Rightarrow> bool" where
  "os_path_exists w filepath = (files w filepath \<noteq> None)"

text \<open>
  \<^verbatim>\<open>with open(filepath, 'wb') as f: shutil.copyfileobj(r.raw, f)\<close>.
  Opening creates the file (or truncates it) before the first byte is read; the bytes
  read are written; an exception of the read leaves the block, which closes the file
  and keeps it.
\<close>

definition copy_to_file :: "string \<Rightarrow> response \<Rightarrow> world \<Rightarrow> (error + unit) \<times> world" where
  "copy_to_file filepath r w =
     (case r_raw_error r of
        None \<Rightarrow> (Inr (), w\<lparr>files := (files w)(filepath \<mapsto> r_raw r)\<rparr>)
      | Some e \<Rightarrow> (Inl e, w\<lparr>files := (files w)(filepath \<mapsto> r_raw r)\<rparr>))"

subsection \<open>Python's \<^verbatim>\<open>str\<close> of an integer, \<^verbatim>\<open>list.index\<close>, subscripts, comparison\<close>

definition digit_char :: "nat \<Rightarrow> char" where
  "digit_char d = char_of (48 + d)"

fun str_nat :: "nat \<Rightarrow> string" where
  "str_nat n = (if n < 10 then [digit_char n] else str_nat (n div 10) @ [digit_char (n mod 10)])"

declare str_nat.simps [simp del]

definition str_int :: "int \<Rightarrow> string" where
  "str_int i = (if i < 0 then CHR ''-'' # str_nat (nat (- i)) else str_nat (nat i))"

fun list_index :: "'a list \<Rightarrow> 'a \<Rightarrow> error + nat" where
  "list_index [] x = Inl ValueError"
| "list_index (y # ys) x =
     (if y = x then Inr 0
      else case list_index ys x of Inl e \<Rightarrow> Inl e | Inr i \<Rightarrow> Inr (Suc i))"

text \<open>\<^verbatim>\<open>d[k]\<close> on what \<^verbatim>\<open>r.json()\<close> returned; in a JSON object the last of
  several equal keys wins.\<close>

fun py_getitem :: "json \<Rightarrow> string \<Rightarrow> error + json" where
  "py_getitem (JObj kvs) k = (case map_of (rev kvs) k of None \<Rightarrow> Inl KeyError | Some v \<Rightarrow> Inr v)"
| "py_getitem JNull k = Inl TypeError"
| "py_getitem (JBool b) k = Inl TypeError"
| "py_getitem (JNum x) k = Inl TypeError"
| "py_getitem (JStr s) k = Inl TypeError"
| "py_getitem (JArr xs) k = Inl TypeError"

fun pyfloat_ge :: "pyfloat \<Rightarrow> real \<Rightarrow> bool" where
  "pyfloat_ge (Finite x) c = (c \<le> x)"
| "pyfloat_ge PosInf c = True"
| "pyfloat_ge NegInf c = False"
| "pyfloat_ge NaN c = False"

text \<open>\<^verbatim>\<open>v >= c\<close> for a float constant \<open>c\<close>; \<^verbatim>\<open>True\<close> and \<^verbatim>\<open>False\<close> compare as 1 and 0.\<close>

fun py_ge :: "json \<Rightarrow> real \<Rightarrow> error + bool" where
  "py_ge (JNum x) c = Inr (pyfloat_ge x c)"
| "py_ge (JBool b) c = Inr (c \<le> (if b then 1 else 0))"
| "py_ge JNull c = Inl TypeError"
| "py_ge (JStr s) c = Inl TypeError"
| "py_ge (JArr xs) c = Inl TypeError"
| "py_ge (JObj kvs) c = Inl TypeError"

subsection \<open>Module globals\<close>

definition data_path :: string where
  "data_path = ''./data/''"

definition tmp :: string where
  "tmp = data_path @ ''tmp/''"

definition url_server :: string where
  "url_server = ''https://ocp7-dbbackend.herokuapp.com''"

definition timeout :: nat where
  "timeout = 30"

text \<open>The three lists \<^verbatim>\<open>get_feature_lists()\<close> returned at start-up, read by
  \<^verbatim>\<open>graph_feature\<close> and \<^verbatim>\<open>bivar\<close>.\<close>

record catalog =
  features_list :: "string list"
  cat_col :: "string list"
  num_col :: "string list"

subsection \<open>The JSON requests\<close>

definition load_id_list :: "server \<Rightarrow> world \<Rightarrow> (error + json) \<times> world" where
  "load_id_list srv w =
     (case requests_get srv
             \<lparr>get_url = url_server @ ''/clients_list'', get_params = [],
              get_stream = False, get_timeout = Some timeout\<rparr> w of
        (Inl e, w1) \<Rightarrow> (Inl e, w1)
      | (Inr r, w1) \<Rightarrow>
          (case r_json r of
             Inl e \<Rightarrow> (Inl e, w1)
           | Inr j \<Rightarrow> (py_getitem j ''id_list'', w1)))"

definition get_feature_lists :: "server \<Rightarrow> world \<Rightarrow> (error + json \<times> json \<times> json) \<times> world" where
  "get_feature_lists srv w =
     (case requests_get srv
             \<lparr>get_url = url_server @ ''/feature_lists'', get_params = [],
              get_stream = False, get_timeout = Some timeout\<rparr> w of
        (Inl e, w1) \<Rightarrow> (Inl e, w1)
      | (Inr r, w1) \<Rightarrow>
          (case r_json r of
             Inl e \<Rightarrow> (Inl e, w1)
           | Inr j \<Rightarrow>
               (case py_getitem j ''all'' of
                  Inl e \<Rightarrow> (Inl e, w1)
                | Inr fl \<Rightarrow>
                    (case py_getitem j ''cat'' of
                       Inl e \<Rightarrow> (Inl e, w1)
                     | Inr cc \<Rightarrow>
                         (case py_getitem j ''num'' of
                            Inl e \<Rightarrow> (Inl e, w1)
                          | Inr nc \<Rightarrow> (Inr (fl, cc, nc), w1))))))"

definition get_feature_selection_list ::
    "server \<Rightarrow> int \<Rightarrow> bool \<Rightarrow> string \<Rightarrow> world \<Rightarrow> (error + json) \<times> world" where
  "get_feature_selection_list srv client_id is_wf filter_arg w =
     (case requests_get srv
             \<lparr>get_url = url_server @ ''/'' @ str_int client_id @ ''/feature_selection'',
              get_params = [(''is_wf'', PBool is_wf), (''filter'', PStr filter_arg)],
              get_stream = False, get_timeout = Some timeout\<rparr> w of
        (Inl e, w1) \<Rightarrow> (Inl e, w1)
      | (Inr r, w1) \<Rightarrow>
          (case r_json r of
             Inl e \<Rightarrow> (Inl e, w1)
           | Inr j \<Rightarrow> (py_getitem j ''feature_selection'', w1)))"

subsection \<open>The gauge\<close>

text \<open>The letter e with an acute accent (U+00E9) in UTF-8.\<close>

definition e_acute :: string where
  "e_acute = [CHR 0xC3, CHR 0xA9]"

definition credit_non_accepte :: string where
  "credit_non_accepte = ''Cr'' @ e_acute @ ''dit non accept'' @ e_acute"

definition credit_accepte :: string where
  "credit_accepte = ''Cr'' @ e_acute @ ''dit accept'' @ e_acute"

text \<open>The fields of the \<^verbatim>\<open>go.Indicator\<close> that depend on the score, with the mode and
  the reference of the delta; the colours and ranges of the gauge are constants.\<close>

record figure =
  indicator_mode :: string
  indicator_value :: json
  title_text :: string
  title_font_size :: nat
  delta_reference :: real

definition set_gauge :: "server \<Rightarrow> int \<Rightarrow> world \<Rightarrow> (error + figure) \<times> world" where
  "set_gauge srv client_id w =
     (case requests_get srv
             \<lparr>get_url = url_server @ ''/'' @ str_int client_id, get_params = [],
              get_stream = False, get_timeout = None\<rparr> w of
        (Inl e, w1) \<Rightarrow> (Inl e, w1)
      | (Inr r, w1) \<Rightarrow>
          (case r_json r of
             Inl e \<Rightarrow> (Inl e, w1)
           | Inr j \<Rightarrow>
               (case py_getitem j ''score'' of
                  Inl e \<Rightarrow> (Inl e, w1)
                | Inr score \<Rightarrow>
                    (case py_ge score (1 / 2) of
                       Inl e \<Rightarrow> (Inl e, w1)
                     | Inr b \<Rightarrow>
                         (Inr \<lparr>indicator_mode = ''gauge+number+delta'',
                               indicator_value = score,
                               title_text = (if b then credit_non_accepte else credit_accepte),
                               title_font_size = 28,
                               delta_reference = 1 / 2\<rparr>, w1)))))"

subsection \<open>The cached images\<close>

definition graph_features_global_impact :: "server \<Rightarrow> int \<Rightarrow> world \<Rightarrow> (error + string) \<times> world" where
  "graph_features_global_impact srv max_feat w =
     (let filepath = tmp @ ''gfgi_'' @ str_int max_feat @ ''.png'' in
      if \<not> os_path_exists w filepath then
        (case requests_get srv
                \<lparr>get_url = url_server @ ''/global_impact'',
                 get_params = [(''max_feat'', PInt max_feat)],
                 get_stream = True, get_timeout = Some timeout\<rparr> w of
           (Inl e, w1) \<Rightarrow> (Inl e, w1)
         | (Inr r, w1) \<Rightarrow>
             (case copy_to_file filepath r w1 of
                (Inl e, w2) \<Rightarrow> (Inl e, w2)
              | (Inr u, w2) \<Rightarrow> (Inr filepath, w2)))
      else (Inr filepath, w))"

definition graph_features_local_impact ::
    "server \<Rightarrow> int \<Rightarrow> int \<Rightarrow> world \<Rightarrow> (error + string) \<times> world" where
  "graph_features_local_impact srv client_id max_feat w =
     (let filepath = tmp @ ''gfli_'' @ str_int client_id @ ''_'' @ str_int max_feat @ ''.png'' in
      if \<not> os_path_exists w filepath then
        (case requests_get srv
                \<lparr>get_url = url_server @ ''/'' @ str_int client_id @ ''/local_impact'',
                 get_params = [(''max_feat'', PInt max_feat)],
                 get_stream = True, get_timeout = Some timeout\<rparr> w of
           (Inl e, w1) \<Rightarrow> (Inl e, w1)
         | (Inr r, w1) \<Rightarrow>
             (case copy_to_file filepath r w1 of
                (Inl e, w2) \<Rightarrow> (Inl e, w2)
              | (Inr u, w2) \<Rightarrow> (Inr filepath, w2)))
      else (Inr filepath, w))"

definition graph_feature ::
    "server \<Rightarrow> catalog \<Rightarrow> int \<Rightarrow> string \<Rightarrow> world \<Rightarrow> (error + string) \<times> world" where
  "graph_feature srv cat client_id feature w =
     (case list_index (features_list cat) feature of
        Inl e \<Rightarrow> (Inl e, w)
      | Inr f_idx \<Rightarrow>
          (let filepath = tmp @ ''feature_'' @ str_int client_id @ ''_'' @ str_nat f_idx @ ''.png'' in
           if \<not> os_path_exists w filepath then
             (case requests_get srv
                     \<lparr>get_url = url_server @ ''/'' @ str_int client_id @ ''/feature'',
                      get_params = [(''feature'', PStr feature)],
                      get_stream = True, get_timeout = Some timeout\<rparr> w of
                (Inl e, w1) \<Rightarrow> (Inl e, w1)
              | (Inr r, w1) \<Rightarrow>
                  (case copy_to_file filepath r w1 of
                     (Inl e, w2) \<Rightarrow> (Inl e, w2)
                   | (Inr u, w2) \<Rightarrow> (Inr filepath, w2)))
           else (Inr filepath, w)))"

text \<open>The file name \<^verbatim>\<open>tmp + f"bivar{i}_{j}.png"\<close> of lines 173, 174 and 180.\<close>

definition bivar_png :: "nat \<Rightarrow> nat \<Rightarrow> string" where
  "bivar_png i j = tmp @ ''bivar'' @ str_nat i @ ''_'' @ str_nat j @ ''.png''"

text \<open>Lines 186 to 188: the size attribute of the image.\<close>

definition img_size_of :: "catalog \<Rightarrow> string \<Rightarrow> string \<Rightarrow> string" where
  "img_size_of cat feature_1 feature_2 =
     (if (feature_1 \<in> set (cat_col cat) \<and> feature_2 \<in> set (num_col cat))
         \<or> (feature_1 \<in> set (num_col cat) \<and> feature_2 \<in> set (cat_col cat))
      then ''large'' else ''normal'')"

definition bivar ::
    "server \<Rightarrow> catalog \<Rightarrow> string \<Rightarrow> string \<Rightarrow> world \<Rightarrow> (error + string \<times> string) \<times> world" where
  "bivar srv cat feature_1 feature_2 w =
     (case list_index (features_list cat) feature_1 of
        Inl e \<Rightarrow> (Inl e, w)
      | Inr f1_idx \<Rightarrow>
          (case list_index (features_list cat) feature_2 of
             Inl e \<Rightarrow> (Inl e, w)
           | Inr f2_idx \<Rightarrow>
               (let filepath_1 = bivar_png f1_idx f2_idx;
                    filepath_2 = bivar_png f2_idx f1_idx in
                if os_path_exists w filepath_1 then
                  (Inr (filepath_1, img_size_of cat feature_1 feature_2), w)
                else if os_path_exists w filepath_2 then
                  (Inr (filepath_2, img_size_of cat feature_1 feature_2), w)
                else
                  (case requests_get srv
                          \<lparr>get_url = url_server @ ''/graph_bivar'',
                           get_params = [(''feature_1'', PStr feature_1),
                                         (''feature_2'', PStr feature_2)],
                           get_stream = True, get_timeout = Some 60\<rparr> w of
                     (Inl e, w1) \<Rightarrow> (Inl e, w1)
                   | (Inr r, w1) \<Rightarrow>
                       (case copy_to_file (bivar_png f1_idx f2_idx) r w1 of
                          (Inl e, w2) \<Rightarrow> (Inl e, w2)
                        | (Inr u, w2) \<Rightarrow>
                            (Inr (bivar_png f1_idx f2_idx,
                                  img_size_of cat feature_1 feature_2), w2))))))"

subsection \<open>A sample catalog, sample worlds and sample services\<close>

text \<open>Concrete inputs on which the definitions are evaluated.\<close>

definition empty_world :: world where
  "empty_world = \<lparr>files = Map.empty, calls = []\<rparr>"

definition demo_catalog :: catalog where
  "demo_catalog = \<lparr>features_list = [''AGE'', ''EDUCATION'', ''INCOME''],
                    cat_col = [''EDUCATION''], num_col = [''AGE'', ''INCOME'']\<rparr>"

text \<open>A service that answers every request with status 200, a complete body and a
  score of 0.75.\<close>

definition srv_ok :: server where
  "srv_ok = (\<lambda>log rq. Responds \<lparr>status_code = 200, r_raw = ''PNG'', r_raw_error = None,
                                  r_json = Inr (JObj [(''score'', JNum (Finite (3 / 4)))])\<rparr>)"

text \<open>A service whose body breaks off with a read timeout after two bytes.\<close>

definition srv_timeout_midway :: server where
  "srv_timeout_midway = (\<lambda>log rq. Responds \<lparr>status_code = 200, r_raw = ''PN'',
                                  r_raw_error = Some Timeout, r_json = Inl JSONDecodeError\<rparr>)"

text \<open>A service that answers every request with status 500 and an error page.\<close>

definition srv_error_500 :: server where
  "srv_error_500 = (\<lambda>log rq. Responds \<lparr>status_code = 500, r_raw = ''Internal Server Error'',
                                  r_raw_error = None, r_json = Inl JSONDecodeError\<rparr>)"

text \<open>A service that never answers: \<^verbatim>\<open>requests.get\<close> raises.\<close>

definition srv_down :: server where
  "srv_down = (\<lambda>log rq. Raises Timeout)"

section \<open>Basic facts\<close>

subsection \<open>Indices and decimal strings\<close>

lemma list_index_Inr: "list_index xs x = Inr i \<Longrightarrow> i < length xs \<and> xs ! i = x"
  by (induction xs arbitrary: i) (auto split: if_splits sum.splits)

lemma list_index_inj:
  assumes "list_index xs a = Inr i" and "list_index xs b = Inr i"
  shows "a = b"
proof -
  have "xs ! i = a" using assms(1) by (simp add: list_index_Inr)
  moreover have "xs ! i = b" using assms(2) by (simp add: list_index_Inr)
  ultimately show ?thesis by simp
qed

lemma of_char_digit_char:
  assumes "d < 10"
  shows "of_char (digit_char d) = 48 + d"
proof -
  have "48 + d < (256::nat)" using assms by arith
  then have "(48 + d) mod 256 = 48 + d" by (rule mod_less)
  then show ?thesis by (simp only: digit_char_def of_char_of)
qed

lemma digit_char_inj:
  assumes "a < 10" and "b < 10" and "digit_char a = digit_char b"
  shows "a = b"
proof -
  have "(of_char (digit_char a) :: nat) = of_char (digit_char b)"
    by (simp only: assms(3))
  then have "48 + a = 48 + b"
    by (simp only: of_char_digit_char [OF assms(1)] of_char_digit_char [OF assms(2)])
  then show ?thesis by arith
qed

lemma digit_char_not_us: "d < 10 \<Longrightarrow> digit_char d \<noteq> CHR ''_''"
proof
  assume d: "d < 10" and e: "digit_char d = CHR ''_''"
  have "(of_char (CHR ''_'') :: nat) = 48 + d"
    using of_char_digit_char [OF d] by (simp only: e)
  moreover have "(of_char (CHR ''_'') :: nat) = 95" by simp
  ultimately show False using d by arith
qed

lemma str_nat_not_Nil: "str_nat n \<noteq> []"
  by (subst str_nat.simps) simp

lemma str_nat_digits: "c \<in> set (str_nat n) \<Longrightarrow> \<exists>d<10. c = digit_char d"
proof (induction n rule: str_nat.induct)
  case (1 n)
  show ?case
  proof (cases "n < 10")
    case True
    with "1.prems" show ?thesis by (subst (asm) str_nat.simps) auto
  next
    case False
    with "1.prems" have "c \<in> set (str_nat (n div 10)) \<or> c = digit_char (n mod 10)"
      by (subst (asm) str_nat.simps) auto
    then show ?thesis
    proof
      assume "c \<in> set (str_nat (n div 10))"
      with False "1.IH" show ?thesis by simp
    next
      assume "c = digit_char (n mod 10)"
      moreover have "n mod 10 < 10" by simp
      ultimately show ?thesis by blast
    qed
  qed
qed

lemma str_nat_no_us: "CHR ''_'' \<notin> set (str_nat n)"
  using str_nat_digits digit_char_not_us by metis

lemma str_nat_inj: "str_nat m = str_nat n \<Longrightarrow> m = n"
proof (induction m arbitrary: n rule: str_nat.induct)
  case (1 m)
  show ?case
  proof (cases "m < 10")
    case mlt: True
    show ?thesis
    proof (cases "n < 10")
      case True
      with mlt "1.prems" have "digit_char m = digit_char n"
        by (simp add: str_nat.simps)
      with mlt True show ?thesis by (rule digit_char_inj)
    next
      case False
      have "length (str_nat m) = 1" using mlt by (simp add: str_nat.simps)
      moreover have "length (str_nat n) = length (str_nat (n div 10)) + 1"
        using False by (subst str_nat.simps) simp
      moreover have "length (str_nat (n div 10)) \<noteq> 0" using str_nat_not_Nil by simp
      ultimately show ?thesis using "1.prems" by simp
    qed
  next
    case mge: False
    show ?thesis
    proof (cases "n < 10")
      case True
      have "length (str_nat n) = 1" using True by (simp add: str_nat.simps)
      moreover have "length (str_nat m) = length (str_nat (m div 10)) + 1"
        using mge by (subst str_nat.simps) simp
      moreover have "length (str_nat (m div 10)) \<noteq> 0" using str_nat_not_Nil by simp
      ultimately show ?thesis using "1.prems" by simp
    next
      case False
      have em: "str_nat m = str_nat (m div 10) @ [digit_char (m mod 10)]"
        using mge by (subst str_nat.simps) simp
      have en: "str_nat n = str_nat (n div 10) @ [digit_char (n mod 10)]"
        using False by (subst str_nat.simps) simp
      from em en "1.prems" have a: "str_nat (m div 10) = str_nat (n div 10)"
        and b: "digit_char (m mod 10) = digit_char (n mod 10)" by simp_all
      from a mge "1.IH" have "m div 10 = n div 10" by simp
      moreover from b have "m mod 10 = n mod 10" by (intro digit_char_inj) simp_all
      ultimately show ?thesis by (metis div_mult_mod_eq)
    qed
  qed
qed

lemma split_at_us:
  assumes "CHR ''_'' \<notin> set x" and "CHR ''_'' \<notin> set x'"
    and "x @ CHR ''_'' # y = x' @ CHR ''_'' # y'"
  shows "x = x' \<and> y = y'"
proof -
  have "takeWhile (\<lambda>c. c \<noteq> CHR ''_'') (x @ CHR ''_'' # y) = x"
    using assms(1) by (subst takeWhile_append2) auto
  moreover have "takeWhile (\<lambda>c. c \<noteq> CHR ''_'') (x' @ CHR ''_'' # y') = x'"
    using assms(2) by (subst takeWhile_append2) auto
  ultimately have "x = x'" using assms(3) by simp
  with assms(3) show ?thesis by simp
qed

lemma bivar_png_inj: "bivar_png i j = bivar_png i' j' \<Longrightarrow> i = i' \<and> j = j'"
proof -
  assume "bivar_png i j = bivar_png i' j'"
  then have "str_nat i @ CHR ''_'' # (str_nat j @ ''.png'') = str_nat i' @ CHR ''_'' # (str_nat j' @ ''.png'')"
    by (simp add: bivar_png_def)
  then have "str_nat i = str_nat i' \<and> str_nat j @ ''.png'' = str_nat j' @ ''.png''"
    by (intro split_at_us str_nat_no_us)
  then show ?thesis by (simp add: str_nat_inj)
qed

lemma list_index_Inl: "list_index xs x = Inl e \<Longrightarrow> x \<notin> set xs \<and> e = ValueError"
  by (induction xs) (auto split: if_splits sum.splits)

lemma list_index_notin: "x \<notin> set xs \<Longrightarrow> list_index xs x = Inl ValueError"
  by (induction xs) auto

lemma list_index_in: "x \<in> set xs \<Longrightarrow> \<exists>i. list_index xs x = Inr i"
  by (induction xs) auto

subsection \<open>Evaluating decimal strings\<close>

lemma digit_char_simps:
  "digit_char 0 = CHR ''0''" "digit_char (Suc 0) = CHR ''1''" "digit_char 1 = CHR ''1''"
  "digit_char 2 = CHR ''2''" "digit_char 3 = CHR ''3''" "digit_char 4 = CHR ''4''"
  "digit_char 5 = CHR ''5''" "digit_char 6 = CHR ''6''" "digit_char 7 = CHR ''7''"
  "digit_char 8 = CHR ''8''" "digit_char 9 = CHR ''9''"
  by (simp_all add: digit_char_def char_of_def bit_0)

lemma str_nat_small: "n < 10 \<Longrightarrow> str_nat n = [digit_char n]"
  by (subst str_nat.simps) simp

subsection \<open>What each cached fetch does on a hit and on a miss\<close>

lemma global_impact_hit:
  "os_path_exists w (tmp @ ''gfgi_'' @ str_int max_feat @ ''.png'') \<Longrightarrow>
   graph_features_global_impact srv max_feat w = (Inr (tmp @ ''gfgi_'' @ str_int max_feat @ ''.png''), w)"
  by (simp add: graph_features_global_impact_def Let_def)

lemma global_impact_miss:
  "\<not> os_path_exists w (tmp @ ''gfgi_'' @ str_int max_feat @ ''.png'') \<Longrightarrow>
   graph_features_global_impact srv max_feat w =
     (case srv (calls w) \<lparr>get_url = url_server @ ''/global_impact'',
                           get_params = [(''max_feat'', PInt max_feat)],
                           get_stream = True, get_timeout = Some timeout\<rparr> of
        Raises e \<Rightarrow>
          (Inl e, w\<lparr>calls := calls w @ [\<lparr>get_url = url_server @ ''/global_impact'',
                           get_params = [(''max_feat'', PInt max_feat)],
                           get_stream = True, get_timeout = Some timeout\<rparr>]\<rparr>)
      | Responds r \<Rightarrow>
          (case r_raw_error r of
             None \<Rightarrow> Inr (tmp @ ''gfgi_'' @ str_int max_feat @ ''.png'')
           | Some e \<Rightarrow> Inl e,
           w\<lparr>calls := calls w @ [\<lparr>get_url = url_server @ ''/global_impact'',
                           get_params = [(''max_feat'', PInt max_feat)],
                           get_stream = True, get_timeout = Some timeout\<rparr>],
             files := (files w)(tmp @ ''gfgi_'' @ str_int max_feat @ ''.png'' \<mapsto> r_raw r)\<rparr>))"
  by (simp add: graph_features_global_impact_def requests_get_def copy_to_file_def Let_def
           split: reply.splits option.splits)

lemma local_impact_hit:
  "os_path_exists w (tmp @ ''gfli_'' @ str_int client_id @ ''_'' @ str_int max_feat @ ''.png'') \<Longrightarrow>
   graph_features_local_impact srv client_id max_feat w =
     (Inr (tmp @ ''gfli_'' @ str_int client_id @ ''_'' @ str_int max_feat @ ''.png''), w)"
  by (simp add: graph_features_local_impact_def Let_def)

lemma local_impact_miss:
  "\<not> os_path_exists w (tmp @ ''gfli_'' @ str_int client_id @ ''_'' @ str_int max_feat @ ''.png'') \<Longrightarrow>
   graph_features_local_impact srv client_id max_feat w =
     (case srv (calls w) \<lparr>get_url = url_server @ ''/'' @ str_int client_id @ ''/local_impact'',
                           get_params = [(''max_feat'', PInt max_feat)],
                           get_stream = True, get_timeout = Some timeout\<rparr> of
        Raises e \<Rightarrow>
          (Inl e, w\<lparr>calls := calls w @ [\<lparr>get_url = url_server @ ''/'' @ str_int client_id @ ''/local_impact'',
                           get_params = [(''max_feat'', PInt max_feat)],
                           get_stream = True, get_timeout = Some timeout\<rparr>]\<rparr>)
      | Responds r \<Rightarrow>
          (case r_raw_error r of
             None \<Rightarrow> Inr (tmp @ ''gfli_'' @ str_int client_id @ ''_'' @ str_int max_feat @ ''.png'')
           | Some e \<Rightarrow> Inl e,
           w\<lparr>calls := calls w @ [\<lparr>get_url = url_server @ ''/'' @ str_int client_id @ ''/local_impact'',
                           get_params = [(''max_feat'', PInt max_feat)],
                           get_stream = True, get_timeout = Some timeout\<rparr>],
             files := (files w)(tmp @ ''gfli_'' @ str_int client_id @ ''_'' @ str_int max_feat @ ''.png''
                                 \<mapsto> r_raw r)\<rparr>))"
  by (simp add: graph_features_local_impact_def requests_get_def copy_to_file_def Let_def
           split: reply.splits option.splits)

lemma feature_hit:
  "list_index (features_list cat) feature = Inr f_idx \<Longrightarrow>
   os_path_exists w (tmp @ ''feature_'' @ str_int client_id @ ''_'' @ str_nat f_idx @ ''.png'') \<Longrightarrow>
   graph_feature srv cat client_id feature w =
     (Inr (tmp @ ''feature_'' @ str_int client_id @ ''_'' @ str_nat f_idx @ ''.png''), w)"
  by (simp add: graph_feature_def Let_def)

lemma feature_miss:
  "list_index (features_list cat) feature = Inr f_idx \<Longrightarrow>
   \<not> os_path_exists w (tmp @ ''feature_'' @ str_int client_id @ ''_'' @ str_nat f_idx @ ''.png'') \<Longrightarrow>
   graph_feature srv cat client_id feature w =
     (case srv (calls w) \<lparr>get_url = url_server @ ''/'' @ str_int client_id @ ''/feature'',
                           get_params = [(''feature'', PStr feature)],
                           get_stream = True, get_timeout = Some timeout\<rparr> of
        Raises e \<Rightarrow>
          (Inl e, w\<lparr>calls := calls w @ [\<lparr>get_url = url_server @ ''/'' @ str_int client_id @ ''/feature'',
                           get_params = [(''feature'', PStr feature)],
                           get_stream = True, get_timeout = Some timeout\<rparr>]\<rparr>)
      | Responds r \<Rightarrow>
          (case r_raw_error r of
             None \<Rightarrow> Inr (tmp @ ''feature_'' @ str_int client_id @ ''_'' @ str_nat f_idx @ ''.png'')
           | Some e \<Rightarrow> Inl e,
           w\<lparr>calls := calls w @ [\<lparr>get_url = url_server @ ''/'' @ str_int client_id @ ''/feature'',
                           get_params = [(''feature'', PStr feature)],
                           get_stream = True, get_timeout = Some timeout\<rparr>],
             files := (files w)(tmp @ ''feature_'' @ str_int client_id @ ''_'' @ str_nat f_idx @ ''.png''
                                 \<mapsto> r_raw r)\<rparr>))"
  by (simp add: graph_feature_def requests_get_def copy_to_file_def Let_def
           split: reply.splits option.splits)

lemma bivar_hit_primary:
  "list_index (features_list cat) feature_1 = Inr i \<Longrightarrow>
   list_index (features_list cat) feature_2 = Inr j \<Longrightarrow>
   os_path_exists w (bivar_png i j) \<Longrightarrow>
   bivar srv cat feature_1 feature_2 w =
     (Inr (bivar_png i j, img_size_of cat feature_1 feature_2), w)"
  by (simp add: bivar_def Let_def)

lemma bivar_hit_alternate:
  "list_index (features_list cat) feature_1 = Inr i \<Longrightarrow>
   list_index (features_list cat) feature_2 = Inr j \<Longrightarrow>
   \<not> os_path_exists w (bivar_png i j) \<Longrightarrow>
   os_path_exists w (bivar_png j i) \<Longrightarrow>
   bivar srv cat feature_1 feature_2 w =
     (Inr (bivar_png j i, img_size_of cat feature_1 feature_2), w)"
  by (simp add: bivar_def Let_def)

lemma bivar_miss:
  "list_index (features_list cat) feature_1 = Inr i \<Longrightarrow>
   list_index (features_list cat) feature_2 = Inr j \<Longrightarrow>
   \<not> os_path_exists w (bivar_png i j) \<Longrightarrow>
   \<not> os_path_exists w (bivar_png j i) \<Longrightarrow>
   bivar srv cat feature_1 feature_2 w =
     (case srv (calls w) \<lparr>get_url = url_server @ ''/graph_bivar'',
                           get_params = [(''feature_1'', PStr feature_1), (''feature_2'', PStr feature_2)],
                           get_stream = True, get_timeout = Some 60\<rparr> of
        Raises e \<Rightarrow>
          (Inl e, w\<lparr>calls := calls w @ [\<lparr>get_url = url_server @ ''/graph_bivar'',
                           get_params = [(''feature_1'', PStr feature_1), (''feature_2'', PStr feature_2)],
                           get_stream = True, get_timeout = Some 60\<rparr>]\<rparr>)
      | Responds r \<Rightarrow>
          (case r_raw_error r of
             None \<Rightarrow> Inr (bivar_png i j, img_size_of cat feature_1 feature_2)
           | Some e \<Rightarrow> Inl e,
           w\<lparr>calls := calls w @ [\<lparr>get_url = url_server @ ''/graph_bivar'',
                           get_params = [(''feature_1'', PStr feature_1), (''feature_2'', PStr feature_2)],
                           get_stream = True, get_timeout = Some 60\<rparr>],
             files := (files w)(bivar_png i j \<mapsto> r_raw r)\<rparr>))"
  by (simp add: bivar_def requests_get_def copy_to_file_def Let_def
           split: reply.splits option.splits)

subsection \<open>The sample inputs evaluated\<close>

lemma demo_index:
  "list_index (features_list demo_catalog) ''AGE'' = Inr 0"
  "list_index (features_list demo_catalog) ''EDUCATION'' = Inr (Suc 0)"
  "list_index (features_list demo_catalog) ''INCOME'' = Inr (Suc (Suc 0))"
  by (simp_all add: demo_catalog_def)

lemma demo_png:
  "bivar_png 0 (Suc 0) = ''./data/tmp/bivar0_1.png''"
  "bivar_png (Suc 0) 0 = ''./data/tmp/bivar1_0.png''"
  by (simp_all add: bivar_png_def str_nat_small digit_char_simps tmp_def data_path_def)

lemma demo_img_size:
  "img_size_of demo_catalog ''EDUCATION'' ''AGE'' = ''large''"
  "img_size_of demo_catalog ''AGE'' ''EDUCATION'' = ''large''"
  "img_size_of demo_catalog ''AGE'' ''INCOME'' = ''normal''"
  by (simp_all add: img_size_of_def demo_catalog_def)


lemma demo_cold_absent:
  "\<not> os_path_exists empty_world p"
  by (simp add: os_path_exists_def empty_world_def)

lemma bivar_demo_cold:
  "bivar srv_ok demo_catalog ''EDUCATION'' ''AGE'' empty_world =
     (Inr (''./data/tmp/bivar1_0.png'', ''large''),
      empty_world\<lparr>calls := [\<lparr>get_url = url_server @ ''/graph_bivar'',
                 get_params = [(''feature_1'', PStr ''EDUCATION''), (''feature_2'', PStr ''AGE'')],
                 get_stream = True, get_timeout = Some 60\<rparr>],
        files := [''./data/tmp/bivar1_0.png'' \<mapsto> ''PNG'']\<rparr>)"
proof -
  have c: "calls empty_world = []" and f: "files empty_world = Map.empty"
    by (simp_all add: empty_world_def)
  show ?thesis
    unfolding bivar_miss [OF demo_index(2) demo_index(1) demo_cold_absent demo_cold_absent]
    by (simp add: srv_ok_def c f demo_png demo_img_size)
qed

lemma bivar_demo_cold_swapped:
  "bivar srv_ok demo_catalog ''AGE'' ''EDUCATION'' empty_world =
     (Inr (''./data/tmp/bivar0_1.png'', ''large''),
      empty_world\<lparr>calls := [\<lparr>get_url = url_server @ ''/graph_bivar'',
                 get_params = [(''feature_1'', PStr ''AGE''), (''feature_2'', PStr ''EDUCATION'')],
                 get_stream = True, get_timeout = Some 60\<rparr>],
        files := [''./data/tmp/bivar0_1.png'' \<mapsto> ''PNG'']\<rparr>)"
proof -
  have c: "calls empty_world = []" and f: "files empty_world = Map.empty"
    by (simp_all add: empty_world_def)
  show ?thesis
    unfolding bivar_miss [OF demo_index(1) demo_index(2) demo_cold_absent demo_cold_absent]
    by (simp add: srv_ok_def c f demo_png demo_img_size)
qed

lemma bivar_img_size:
  "bivar srv cat a b w = (Inr (p, z), w') \<Longrightarrow> z = img_size_of cat a b"
  by (auto simp: bivar_def Let_def requests_get_def copy_to_file_def
           split: sum.splits if_splits reply.splits option.splits)

subsection \<open>A fetch that missed, followed by a second one\<close>

lemma img_size_of_commute: "img_size_of cat a b = img_size_of cat b a"
  by (auto simp: img_size_of_def)

text \<open>A first request that returns a path which was not stored before was a miss.\<close>

lemma bivar_cold:
  assumes "bivar srv cat a b w = (Inr (p, z), w1)" and "\<not> os_path_exists w p"
  shows "\<exists>i j r. list_index (features_list cat) a = Inr i \<and>
           list_index (features_list cat) b = Inr j \<and>
           \<not> os_path_exists w (bivar_png i j) \<and> \<not> os_path_exists w (bivar_png j i) \<and>
           p = bivar_png i j \<and> z = img_size_of cat a b \<and>
           srv (calls w) \<lparr>get_url = url_server @ ''/graph_bivar'',
                           get_params = [(''feature_1'', PStr a), (''feature_2'', PStr b)],
                           get_stream = True, get_timeout = Some 60\<rparr> = Responds r \<and>
           r_raw_error r = None \<and>
           w1 = w\<lparr>calls := calls w @ [\<lparr>get_url = url_server @ ''/graph_bivar'',
                           get_params = [(''feature_1'', PStr a), (''feature_2'', PStr b)],
                           get_stream = True, get_timeout = Some 60\<rparr>],
                  files := (files w)(bivar_png i j \<mapsto> r_raw r)\<rparr>"
proof -
  from assms(1) obtain i where i: "list_index (features_list cat) a = Inr i"
    by (cases "list_index (features_list cat) a") (auto simp: bivar_def)
  from assms(1) i obtain j where j: "list_index (features_list cat) b = Inr j"
    by (cases "list_index (features_list cat) b") (auto simp: bivar_def)
  have m1: "\<not> os_path_exists w (bivar_png i j)"
  proof
    assume h: "os_path_exists w (bivar_png i j)"
    from bivar_hit_primary [OF i j h, of srv] assms h show False by simp
  qed
  have m2: "\<not> os_path_exists w (bivar_png j i)"
  proof
    assume h: "os_path_exists w (bivar_png j i)"
    from bivar_hit_alternate [OF i j m1 h, of srv] assms h show False by simp
  qed
  from assms(1) show ?thesis
    unfolding bivar_miss [OF i j m1 m2]
    using i j m1 m2 by (auto split: reply.splits option.splits)
qed

lemma bivar_twice:
  assumes "bivar srv cat a b w = (Inr (p, z), w1)" and "\<not> os_path_exists w p"
  shows "bivar srv' cat a b w1 = (Inr (p, z), w1) \<and>
         calls w1 = calls w @ [\<lparr>get_url = url_server @ ''/graph_bivar'',
                                 get_params = [(''feature_1'', PStr a), (''feature_2'', PStr b)],
                                 get_stream = True, get_timeout = Some 60\<rparr>] \<and>
         os_path_exists w1 p"
proof -
  from bivar_cold [OF assms] obtain i j and r :: response where
    i: "list_index (features_list cat) a = Inr i" and j: "list_index (features_list cat) b = Inr j"
    and p: "p = bivar_png i j" and z: "z = img_size_of cat a b"
    and w1: "w1 = w\<lparr>calls := calls w @ [\<lparr>get_url = url_server @ ''/graph_bivar'',
                           get_params = [(''feature_1'', PStr a), (''feature_2'', PStr b)],
                           get_stream = True, get_timeout = Some 60\<rparr>],
                  files := (files w)(bivar_png i j \<mapsto> r_raw r)\<rparr>"
    by blast
  have e: "os_path_exists w1 (bivar_png i j)" by (simp add: w1 os_path_exists_def)
  from bivar_hit_primary [OF i j e, of srv'] p z e w1 show ?thesis by simp
qed

lemma bivar_swapped:
  assumes "bivar srv cat a b w = (Inr (p, z), w1)" and "\<not> os_path_exists w p"
  shows "bivar srv' cat b a w1 = (Inr (p, z), w1)"
proof -
  from bivar_cold [OF assms] obtain i j and r :: response where
    i: "list_index (features_list cat) a = Inr i" and j: "list_index (features_list cat) b = Inr j"
    and m2: "\<not> os_path_exists w (bivar_png j i)"
    and p: "p = bivar_png i j" and z: "z = img_size_of cat a b"
    and w1: "w1 = w\<lparr>calls := calls w @ [\<lparr>get_url = url_server @ ''/graph_bivar'',
                           get_params = [(''feature_1'', PStr a), (''feature_2'', PStr b)],
                           get_stream = True, get_timeout = Some 60\<rparr>],
                  files := (files w)(bivar_png i j \<mapsto> r_raw r)\<rparr>"
    by blast
  have e: "os_path_exists w1 (bivar_png i j)" by (simp add: w1 os_path_exists_def)
  show ?thesis
  proof (cases "os_path_exists w1 (bivar_png j i)")
    case True
    with m2 have "bivar_png j i = bivar_png i j"
      by (auto simp: w1 os_path_exists_def split: if_splits)
    with bivar_hit_primary [OF j i True, of srv'] p z show ?thesis
      by (simp add: img_size_of_commute)
  next
    case False
    from bivar_hit_alternate [OF j i False e, of srv'] p z show ?thesis
      by (simp add: img_size_of_commute)
  qed
qed

lemma bivar_one_blob:
  assumes "bivar srv cat a b w = (Inr (p, z), w1)" and "\<not> os_path_exists w p"
  shows "os_path_exists w1 q \<longleftrightarrow> q = p \<or> os_path_exists w q"
proof -
  from bivar_cold [OF assms] obtain i j and r :: response where
    p: "p = bivar_png i j"
    and w1: "w1 = w\<lparr>calls := calls w @ [\<lparr>get_url = url_server @ ''/graph_bivar'',
                           get_params = [(''feature_1'', PStr a), (''feature_2'', PStr b)],
                           get_stream = True, get_timeout = Some 60\<rparr>],
                  files := (files w)(bivar_png i j \<mapsto> r_raw r)\<rparr>"
    by blast
  show ?thesis by (simp add: w1 p os_path_exists_def)
qed

lemma bivar_not_rekeyed:
  assumes "bivar srv cat a b w = (Inr (p, z), w1)" and "\<not> os_path_exists w p" and "a \<noteq> b"
  shows "\<exists>i j. list_index (features_list cat) a = Inr i \<and> list_index (features_list cat) b = Inr j \<and>
           p = bivar_png i j \<and> bivar_png j i \<noteq> p \<and> \<not> os_path_exists w1 (bivar_png j i)"
proof -
  from bivar_cold [OF assms(1,2)] obtain i j and r :: response where
    i: "list_index (features_list cat) a = Inr i" and j: "list_index (features_list cat) b = Inr j"
    and m2: "\<not> os_path_exists w (bivar_png j i)"
    and p: "p = bivar_png i j"
    and w1: "w1 = w\<lparr>calls := calls w @ [\<lparr>get_url = url_server @ ''/graph_bivar'',
                           get_params = [(''feature_1'', PStr a), (''feature_2'', PStr b)],
                           get_stream = True, get_timeout = Some 60\<rparr>],
                  files := (files w)(bivar_png i j \<mapsto> r_raw r)\<rparr>"
    by blast
  have "i \<noteq> j" using list_index_inj [OF i] j assms(3) by blast
  then have ne: "bivar_png j i \<noteq> bivar_png i j" using bivar_png_inj by blast
  with m2 have "\<not> os_path_exists w1 (bivar_png j i)"
    by (simp add: w1 os_path_exists_def)
  with i j p ne show ?thesis by blast
qed

lemma global_impact_twice:
  assumes "graph_features_global_impact srv max_feat w = (Inr p, w1)"
    and "\<not> os_path_exists w p"
  shows "graph_features_global_impact srv' max_feat w1 = (Inr p, w1) \<and>
         calls w1 = calls w @ [\<lparr>get_url = url_server @ ''/global_impact'',
                                 get_params = [(''max_feat'', PInt max_feat)],
                                 get_stream = True, get_timeout = Some timeout\<rparr>] \<and>
         os_path_exists w1 p"
proof -
  let ?key = "tmp @ ''gfgi_'' @ str_int max_feat @ ''.png''"
  have miss: "\<not> os_path_exists w ?key"
  proof
    assume h: "os_path_exists w ?key"
    from global_impact_hit [OF h, of srv] assms h show False by simp
  qed
  from assms(1) have p: "p = ?key"
    and w1: "calls w1 = calls w @ [\<lparr>get_url = url_server @ ''/global_impact'',
                                 get_params = [(''max_feat'', PInt max_feat)],
                                 get_stream = True, get_timeout = Some timeout\<rparr>]"
    and e: "os_path_exists w1 ?key"
    unfolding global_impact_miss [OF miss]
    by (auto simp: os_path_exists_def split: reply.splits option.splits)
  from global_impact_hit [OF e, of srv'] p w1 e show ?thesis by simp
qed

lemma local_impact_twice:
  assumes "graph_features_local_impact srv client_id max_feat w = (Inr p, w1)"
    and "\<not> os_path_exists w p"
  shows "graph_features_local_impact srv' client_id max_feat w1 = (Inr p, w1) \<and>
         calls w1 = calls w @ [\<lparr>get_url = url_server @ ''/'' @ str_int client_id @ ''/local_impact'',
                                 get_params = [(''max_feat'', PInt max_feat)],
                                 get_stream = True, get_timeout = Some timeout\<rparr>] \<and>
         os_path_exists w1 p"
proof -
  let ?key = "tmp @ ''gfli_'' @ str_int client_id @ ''_'' @ str_int max_feat @ ''.png''"
  have miss: "\<not> os_path_exists w ?key"
  proof
    assume h: "os_path_exists w ?key"
    from local_impact_hit [OF h, of srv] assms h show False by simp
  qed
  from assms(1) have p: "p = ?key"
    and w1: "calls w1 = calls w @ [\<lparr>get_url = url_server @ ''/'' @ str_int client_id @ ''/local_impact'',
                                 get_params = [(''max_feat'', PInt max_feat)],
                                 get_stream = True, get_timeout = Some timeout\<rparr>]"
    and e: "os_path_exists w1 ?key"
    unfolding local_impact_miss [OF miss]
    by (auto simp: os_path_exists_def split: reply.splits option.splits)
  from local_impact_hit [OF e, of srv'] p w1 e show ?thesis by simp
qed

lemma feature_twice:
  assumes "graph_feature srv cat client_id feature w = (Inr p, w1)"
    and "\<not> os_path_exists w p"
  shows "graph_feature srv' cat client_id feature w1 = (Inr p, w1) \<and>
         calls w1 = calls w @ [\<lparr>get_url = url_server @ ''/'' @ str_int client_id @ ''/feature'',
                                 get_params = [(''feature'', PStr feature)],
                                 get_stream = True, get_timeout = Some timeout\<rparr>] \<and>
         os_path_exists w1 p"
proof -
  from assms(1) obtain f_idx where i: "list_index (features_list cat) feature = Inr f_idx"
    by (cases "list_index (features_list cat) feature") (auto simp: graph_feature_def)
  let ?key = "tmp @ ''feature_'' @ str_int client_id @ ''_'' @ str_nat f_idx @ ''.png''"
  have miss: "\<not> os_path_exists w ?key"
  proof
    assume h: "os_path_exists w ?key"
    from feature_hit [OF i h, of srv] assms h show False by simp
  qed
  from assms(1) have p: "p = ?key"
    and w1: "calls w1 = calls w @ [\<lparr>get_url = url_server @ ''/'' @ str_int client_id @ ''/feature'',
                                 get_params = [(''feature'', PStr feature)],
                                 get_stream = True, get_timeout = Some timeout\<rparr>]"
    and e: "os_path_exists w1 ?key"
    unfolding feature_miss [OF i miss]
    by (auto simp: os_path_exists_def split: reply.splits option.splits)
  from feature_hit [OF i e, of srv'] p w1 e show ?thesis by simp
qed

subsection \<open>The sample fetches evaluated\<close>

lemma demo_strs:
  "str_int 20 = ''20''" "str_int 3 = ''3''" "str_int 100001 = ''100001''"
  "str_nat (Suc 0) = ''1''"
  by (simp_all add: str_int_def str_nat.simps digit_char_simps)

lemma global_impact_demo_cold:
  "graph_features_global_impact srv_ok 20 empty_world =
     (Inr ''./data/tmp/gfgi_20.png'',
      empty_world\<lparr>calls := [\<lparr>get_url = url_server @ ''/global_impact'',
                               get_params = [(''max_feat'', PInt 20)],
                               get_stream = True, get_timeout = Some timeout\<rparr>],
                   files := [''./data/tmp/gfgi_20.png'' \<mapsto> ''PNG'']\<rparr>)"
proof -
  have c: "calls empty_world = []" and f: "files empty_world = Map.empty"
    by (simp_all add: empty_world_def)
  show ?thesis
    unfolding global_impact_miss [OF demo_cold_absent]
    by (simp add: srv_ok_def c f demo_strs tmp_def data_path_def)
qed

lemma local_impact_demo_cold:
  "graph_features_local_impact srv_ok 100001 20 empty_world =
     (Inr ''./data/tmp/gfli_100001_20.png'',
      empty_world\<lparr>calls := [\<lparr>get_url = url_server @ ''/'' @ str_int 100001 @ ''/local_impact'',
                               get_params = [(''max_feat'', PInt 20)],
                               get_stream = True, get_timeout = Some timeout\<rparr>],
                   files := [''./data/tmp/gfli_100001_20.png'' \<mapsto> ''PNG'']\<rparr>)"
proof -
  have c: "calls empty_world = []" and f: "files empty_world = Map.empty"
    by (simp_all add: empty_world_def)
  show ?thesis
    unfolding local_impact_miss [OF demo_cold_absent]
    by (simp add: srv_ok_def c f demo_strs tmp_def data_path_def)
qed

lemma feature_demo_cold:
  "graph_feature srv_ok demo_catalog 100001 ''EDUCATION'' empty_world =
     (Inr ''./data/tmp/feature_100001_1.png'',
      empty_world\<lparr>calls := [\<lparr>get_url = url_server @ ''/'' @ str_int 100001 @ ''/feature'',
                               get_params = [(''feature'', PStr ''EDUCATION'')],
                               get_stream = True, get_timeout = Some timeout\<rparr>],
                   files := [''./data/tmp/feature_100001_1.png'' \<mapsto> ''PNG'']\<rparr>)"
proof -
  have c: "calls empty_world = []" and f: "files empty_world = Map.empty"
    by (simp_all add: empty_world_def)
  show ?thesis
    unfolding feature_miss [OF demo_index(2) demo_cold_absent]
    by (simp add: srv_ok_def c f demo_strs tmp_def data_path_def)
qed

lemma global_impact_demo_broken:
  "graph_features_global_impact srv_timeout_midway 20 empty_world =
     (Inl Timeout,
      empty_world\<lparr>calls := [\<lparr>get_url = url_server @ ''/global_impact'',
                               get_params = [(''max_feat'', PInt 20)],
                               get_stream = True, get_timeout = Some timeout\<rparr>],
                   files := [''./data/tmp/gfgi_20.png'' \<mapsto> ''PN'']\<rparr>)"
proof -
  have c: "calls empty_world = []" and f: "files empty_world = Map.empty"
    by (simp_all add: empty_world_def)
  show ?thesis
    unfolding global_impact_miss [OF demo_cold_absent]
    by (simp add: srv_timeout_midway_def c f demo_strs tmp_def data_path_def)
qed

lemma global_impact_demo_500:
  "graph_features_global_impact srv_error_500 20 empty_world =
     (Inr ''./data/tmp/gfgi_20.png'',
      empty_world\<lparr>calls := [\<lparr>get_url = url_server @ ''/global_impact'',
                               get_params = [(''max_feat'', PInt 20)],
                               get_stream = True, get_timeout = Some timeout\<rparr>],
                   files := [''./data/tmp/gfgi_20.png'' \<mapsto> ''Internal Server Error'']\<rparr>)"
proof -
  have c: "calls empty_world = []" and f: "files empty_world = Map.empty"
    by (simp_all add: empty_world_def)
  show ?thesis
    unfolding global_impact_miss [OF demo_cold_absent]
    by (simp add: srv_error_500_def c f demo_strs tmp_def data_path_def)
qed

lemma bivar_demo_broken:
  "bivar srv_timeout_midway demo_catalog ''EDUCATION'' ''AGE'' empty_world =
     (Inl Timeout,
      empty_world\<lparr>calls := [\<lparr>get_url = url_server @ ''/graph_bivar'',
                 get_params = [(''feature_1'', PStr ''EDUCATION''), (''feature_2'', PStr ''AGE'')],
                 get_stream = True, get_timeout = Some 60\<rparr>],
        files := [''./data/tmp/bivar1_0.png'' \<mapsto> ''PN'']\<rparr>)"
proof -
  have c: "calls empty_world = []" and f: "files empty_world = Map.empty"
    by (simp_all add: empty_world_def)
  show ?thesis
    unfolding bivar_miss [OF demo_index(2) demo_index(1) demo_cold_absent demo_cold_absent]
    by (simp add: srv_timeout_midway_def c f demo_png)
qed

lemma global_impact_demo_three:
  "graph_features_global_impact srv_ok 3 empty_world =
     (Inr ''./data/tmp/gfgi_3.png'',
      empty_world\<lparr>calls := [\<lparr>get_url = url_server @ ''/global_impact'',
                               get_params = [(''max_feat'', PInt 3)],
                               get_stream = True, get_timeout = Some timeout\<rparr>],
                   files := [''./data/tmp/gfgi_3.png'' \<mapsto> ''PNG'']\<rparr>)"
proof -
  have c: "calls empty_world = []" and f: "files empty_world = Map.empty"
    by (simp_all add: empty_world_def)
  show ?thesis
    unfolding global_impact_miss [OF demo_cold_absent]
    by (simp add: srv_ok_def c f demo_strs tmp_def data_path_def)
qed

subsection \<open>The timeout of every request but the score request\<close>

lemma json_requests_pass_timeout:
  "calls (snd (load_id_list srv w)) =
     calls w @ [\<lparr>get_url = url_server @ ''/clients_list'', get_params = [],
                 get_stream = False, get_timeout = Some 30\<rparr>]"
  "calls (snd (get_feature_lists srv w)) =
     calls w @ [\<lparr>get_url = url_server @ ''/feature_lists'', get_params = [],
                 get_stream = False, get_timeout = Some 30\<rparr>]"
  "calls (snd (get_feature_selection_list srv client_id is_wf filter_arg w)) =
     calls w @ [\<lparr>get_url = url_server @ ''/'' @ str_int client_id @ ''/feature_selection'',
                 get_params = [(''is_wf'', PBool is_wf), (''filter'', PStr filter_arg)],
                 get_stream = False, get_timeout = Some 30\<rparr>]"
  by (auto simp: load_id_list_def get_feature_lists_def get_feature_selection_list_def
        requests_get_def timeout_def split: reply.splits sum.splits)

lemma stream_requests_pass_timeout:
  "c \<in> set (calls (snd (graph_features_global_impact srv max_feat w))) \<Longrightarrow>
     c \<in> set (calls w) \<or> get_timeout c = Some 30"
  "c \<in> set (calls (snd (graph_features_local_impact srv client_id max_feat w))) \<Longrightarrow>
     c \<in> set (calls w) \<or> get_timeout c = Some 30"
  "c \<in> set (calls (snd (graph_feature srv cat client_id feature w))) \<Longrightarrow>
     c \<in> set (calls w) \<or> get_timeout c = Some 30"
  "c \<in> set (calls (snd (bivar srv cat feature_a feature_b w))) \<Longrightarrow>
     c \<in> set (calls w) \<or> get_timeout c = Some 60"
  by (auto simp: graph_features_global_impact_def graph_features_local_impact_def
        graph_feature_def bivar_def Let_def requests_get_def copy_to_file_def timeout_def
        split: reply.splits sum.splits option.splits if_splits)

section \<open>The claims\<close>

subsection \<open>Unknown features\<close>

text \<open>
  Claim C4. A single-feature or bivariate request that names a feature which is not in
  \<^verbatim>\<open>features_list\<close> fails in \<^verbatim>\<open>features_list.index\<close>, on the first line of the
  function, with Python's \<^verbatim>\<open>ValueError\<close> (the failure the specification calls
  UnknownFeature), and the world is returned as it was: no request has been issued and no
  file written.
\<close>

theorem unknown_feature_rejected:
  "(feature \<notin> set (features_list cat) \<longrightarrow>
      graph_feature srv cat client_id feature w = (Inl ValueError, w)) \<and>
   (feature_1 \<notin> set (features_list cat) \<or> feature_2 \<notin> set (features_list cat) \<longrightarrow>
      bivar srv cat feature_1 feature_2 w = (Inl ValueError, w))"
  by (auto simp: graph_feature_def bivar_def list_index_notin split: sum.splits dest: list_index_Inl)

theorem unknown_feature_rejected_witness:
  "''NOT_A_FEATURE'' \<notin> set (features_list demo_catalog) \<and>
   graph_feature srv_ok demo_catalog 100001 ''NOT_A_FEATURE'' empty_world
     = (Inl ValueError, empty_world) \<and>
   bivar srv_ok demo_catalog ''AGE'' ''NOT_A_FEATURE'' empty_world = (Inl ValueError, empty_world) \<and>
   bivar srv_ok demo_catalog ''NOT_A_FEATURE'' ''AGE'' empty_world = (Inl ValueError, empty_world)"
  using unknown_feature_rejected [of "''NOT_A_FEATURE''" demo_catalog srv_ok 100001 empty_world
          "''AGE''" "''NOT_A_FEATURE''"]
        unknown_feature_rejected [of "''NOT_A_FEATURE''" demo_catalog srv_ok 100001 empty_world
          "''NOT_A_FEATURE''" "''AGE''"]
  by (simp add: demo_catalog_def)

subsection \<open>The size attribute of the bivariate image\<close>

text \<open>
  Claim C5. The size attribute is \<^verbatim>\<open>'large'\<close> exactly when one of the two features is
  in the categorical list and the other in the numeric list, and \<^verbatim>\<open>'normal'\<close> otherwise,
  in particular when one of them is in neither list. In a catalog whose two lists are
  disjoint this is: exactly one of the two features is categorical and the other is
  numeric; two categorical features and two numeric features give \<^verbatim>\<open>'normal'\<close>. It is
  the attribute \<^verbatim>\<open>bivar\<close> returns.
\<close>

theorem img_size_large_iff:
  "(img_size_of cat a b = ''large'' \<longleftrightarrow>
      (a \<in> set (cat_col cat) \<and> b \<in> set (num_col cat)) \<or>
      (a \<in> set (num_col cat) \<and> b \<in> set (cat_col cat))) \<and>
   (img_size_of cat a b \<noteq> ''large'' \<longrightarrow> img_size_of cat a b = ''normal'') \<and>
   (a \<notin> set (cat_col cat) \<union> set (num_col cat) \<or> b \<notin> set (cat_col cat) \<union> set (num_col cat)
      \<longrightarrow> img_size_of cat a b = ''normal'') \<and>
   (set (cat_col cat) \<inter> set (num_col cat) = {} \<longrightarrow>
      (img_size_of cat a b = ''large'' \<longleftrightarrow>
         (a \<in> set (cat_col cat) \<and> b \<notin> set (cat_col cat) \<and> b \<in> set (num_col cat)) \<or>
         (b \<in> set (cat_col cat) \<and> a \<notin> set (cat_col cat) \<and> a \<in> set (num_col cat))) \<and>
      (a \<in> set (cat_col cat) \<and> b \<in> set (cat_col cat) \<longrightarrow> img_size_of cat a b = ''normal'') \<and>
      (a \<in> set (num_col cat) \<and> b \<in> set (num_col cat) \<longrightarrow> img_size_of cat a b = ''normal'')) \<and>
   (bivar srv cat a b w = (Inr (p, z), w') \<longrightarrow> z = img_size_of cat a b)"
  using bivar_img_size [of srv cat a b w p z w']
  by (auto simp: img_size_of_def)

theorem img_size_large_iff_witness:
  "set (cat_col demo_catalog) \<inter> set (num_col demo_catalog) = {} \<and>
   img_size_of demo_catalog ''EDUCATION'' ''AGE'' = ''large'' \<and>
   img_size_of demo_catalog ''AGE'' ''INCOME'' = ''normal'' \<and>
   img_size_of demo_catalog ''EDUCATION'' ''EDUCATION'' = ''normal'' \<and>
   img_size_of demo_catalog ''EDUCATION'' ''ZIP'' = ''normal'' \<and>
   (\<exists>p w'. bivar srv_ok demo_catalog ''EDUCATION'' ''AGE'' empty_world = (Inr (p, ''large''), w'))"
proof -
  have d: "set (cat_col demo_catalog) \<inter> set (num_col demo_catalog) = {}"
    by (simp add: demo_catalog_def)
  have m: "''EDUCATION'' \<in> set (cat_col demo_catalog)" "''AGE'' \<notin> set (cat_col demo_catalog)"
    "''AGE'' \<in> set (num_col demo_catalog)" "''INCOME'' \<in> set (num_col demo_catalog)"
    "''ZIP'' \<notin> set (cat_col demo_catalog) \<union> set (num_col demo_catalog)"
    by (simp_all add: demo_catalog_def)
  have l: "img_size_of demo_catalog ''EDUCATION'' ''AGE'' = ''large''"
    using img_size_large_iff [of demo_catalog "''EDUCATION''" "''AGE''"] d m by blast
  have n: "img_size_of demo_catalog ''AGE'' ''INCOME'' = ''normal''"
    using img_size_large_iff [of demo_catalog "''AGE''" "''INCOME''"] d m by blast
  have c: "img_size_of demo_catalog ''EDUCATION'' ''EDUCATION'' = ''normal''"
    using img_size_large_iff [of demo_catalog "''EDUCATION''" "''EDUCATION''"] d m by blast
  have u: "img_size_of demo_catalog ''EDUCATION'' ''ZIP'' = ''normal''"
    using img_size_large_iff [of demo_catalog "''EDUCATION''" "''ZIP''"] m by blast
  have z: "''large'' = img_size_of demo_catalog ''EDUCATION'' ''AGE''"
    using img_size_large_iff [of demo_catalog "''EDUCATION''" "''AGE''" srv_ok empty_world]
      bivar_demo_cold by blast
  have b: "\<exists>p w'. bivar srv_ok demo_catalog ''EDUCATION'' ''AGE'' empty_world = (Inr (p, ''large''), w')"
    using bivar_demo_cold by blast
  show ?thesis using d l n c u b by blast
qed

text \<open>
  Claim C9. The size attribute is symmetric: \<^verbatim>\<open>bivar(a, b)\<close> and \<^verbatim>\<open>bivar(b, a)\<close>,
  whenever both return, return the same attribute, whatever the world and the service.
\<close>

theorem img_size_symmetric:
  "img_size_of cat a b = img_size_of cat b a \<and>
   (bivar srv cat a b w = (Inr (p1, z1), w1) \<longrightarrow>
    bivar srv' cat b a w' = (Inr (p2, z2), w2) \<longrightarrow> z1 = z2)"
proof -
  have s: "img_size_of cat a b = img_size_of cat b a"
    by (auto simp: img_size_of_def)
  show ?thesis
    using s bivar_img_size [of srv cat a b w p1 z1 w1] bivar_img_size [of srv' cat b a w' p2 z2 w2]
    by metis
qed

theorem img_size_symmetric_witness:
  "fst (bivar srv_ok demo_catalog ''EDUCATION'' ''AGE'' empty_world)
     = Inr (''./data/tmp/bivar1_0.png'', ''large'') \<and>
   fst (bivar srv_ok demo_catalog ''AGE'' ''EDUCATION'' empty_world)
     = Inr (''./data/tmp/bivar0_1.png'', ''large'')"
  using img_size_symmetric [of demo_catalog "''EDUCATION''" "''AGE''" srv_ok empty_world
      "''./data/tmp/bivar1_0.png''" "''large''"
      "snd (bivar srv_ok demo_catalog ''EDUCATION'' ''AGE'' empty_world)"
      srv_ok empty_world "''./data/tmp/bivar0_1.png''" "''large''"
      "snd (bivar srv_ok demo_catalog ''AGE'' ''EDUCATION'' empty_world)"]
  by (simp add: bivar_demo_cold bivar_demo_cold_swapped)

subsection \<open>The gauge\<close>

text \<open>
  Claim C8. \<^verbatim>\<open>set_gauge\<close> always issues one request to the score URL of the client,
  leaves every file as it was, and its result does not depend on the files: the score is
  never read from the scratch directory nor written to it.
\<close>

theorem set_gauge_bypasses_store:
  "files (snd (set_gauge srv client_id w)) = files w \<and>
   calls (snd (set_gauge srv client_id w)) =
     calls w @ [\<lparr>get_url = url_server @ ''/'' @ str_int client_id, get_params = [],
                 get_stream = False, get_timeout = None\<rparr>] \<and>
   fst (set_gauge srv client_id (w\<lparr>files := fs\<rparr>)) = fst (set_gauge srv client_id w)"
  by (auto simp: set_gauge_def requests_get_def split: reply.splits sum.splits)

text \<open>
  Claim C10. When the service returns a numeric score, the figure is built and its title
  is the text for a refused credit exactly when the score is at least 0.5, and the text
  for an accepted credit exactly when the score is below 0.5.
\<close>

theorem set_gauge_title:
  assumes "srv (calls w) \<lparr>get_url = url_server @ ''/'' @ str_int client_id, get_params = [],
                           get_stream = False, get_timeout = None\<rparr> = Responds r"
    and "r_json r = Inr j"
    and "py_getitem j ''score'' = Inr (JNum (Finite x))"
  shows "\<exists>fig w'. set_gauge srv client_id w = (Inr fig, w') \<and>
           indicator_value fig = JNum (Finite x) \<and>
           (title_text fig = credit_non_accepte \<longleftrightarrow> 1 / 2 \<le> x) \<and>
           (title_text fig = credit_accepte \<longleftrightarrow> x < 1 / 2)"
  using assms
  by (auto simp: set_gauge_def requests_get_def credit_non_accepte_def credit_accepte_def)

theorem set_gauge_title_witness:
  "\<exists>fig w'. set_gauge srv_ok 100001 empty_world = (Inr fig, w') \<and>
      indicator_value fig = JNum (Finite (3 / 4)) \<and>
      title_text fig = credit_non_accepte \<and> title_text fig \<noteq> credit_accepte"
  using set_gauge_title [of srv_ok empty_world 100001
      "\<lparr>status_code = 200, r_raw = ''PNG'', r_raw_error = None,
        r_json = Inr (JObj [(''score'', JNum (Finite (3 / 4)))])\<rparr>"
      "JObj [(''score'', JNum (Finite (3 / 4)))]" "3 / 4"]
  by (simp add: srv_ok_def)

subsection \<open>Timeouts\<close>

text \<open>
  Claim C7. The score request of \<^verbatim>\<open>set_gauge\<close> is issued without a timeout: the call
  on line 75 is the only \<^verbatim>\<open>requests.get\<close> of the module that does not pass one.
\<close>

theorem set_gauge_without_timeout:
  "map get_timeout (calls (snd (set_gauge srv 100001 empty_world))) = [None] \<and>
   map get_url (calls (snd (set_gauge srv 100001 empty_world))) = [url_server @ ''/100001'']"
  by (auto simp: set_gauge_def requests_get_def empty_world_def str_int_def str_nat.simps digit_char_simps url_server_def
      split: reply.splits sum.splits)

subsection \<open>Fetching the same image twice\<close>

text \<open>
  Claim C2. For each of the four cached images (global impact, local impact, single
  feature, bivariate): when a first fetch returns a path that was not stored before, it
  has issued exactly one streamed request, and a second fetch with the same parameters
  finds the file, returns the same path and leaves the world as it is, so it contacts
  the service no more.
\<close>

theorem fetch_twice_one_remote_call:
  "(graph_features_global_impact srv max_feat w = (Inr pg, w_g) \<longrightarrow> \<not> os_path_exists w pg \<longrightarrow>
      graph_features_global_impact srv max_feat w_g = (Inr pg, w_g) \<and>
      os_path_exists w_g pg \<and>
      calls w_g = calls w @ [\<lparr>get_url = url_server @ ''/global_impact'',
                              get_params = [(''max_feat'', PInt max_feat)],
                              get_stream = True, get_timeout = Some timeout\<rparr>]) \<and>
   (graph_features_local_impact srv client_id max_feat w = (Inr pl, w_l) \<longrightarrow> \<not> os_path_exists w pl \<longrightarrow>
      graph_features_local_impact srv client_id max_feat w_l = (Inr pl, w_l) \<and>
      os_path_exists w_l pl \<and>
      calls w_l = calls w @ [\<lparr>get_url = url_server @ ''/'' @ str_int client_id @ ''/local_impact'',
                              get_params = [(''max_feat'', PInt max_feat)],
                              get_stream = True, get_timeout = Some timeout\<rparr>]) \<and>
   (graph_feature srv cat client_id feature w = (Inr pf, w_f) \<longrightarrow> \<not> os_path_exists w pf \<longrightarrow>
      graph_feature srv cat client_id feature w_f = (Inr pf, w_f) \<and>
      os_path_exists w_f pf \<and>
      calls w_f = calls w @ [\<lparr>get_url = url_server @ ''/'' @ str_int client_id @ ''/feature'',
                              get_params = [(''feature'', PStr feature)],
                              get_stream = True, get_timeout = Some timeout\<rparr>]) \<and>
   (bivar srv cat feature_a feature_b w = (Inr (pb, z), w_b) \<longrightarrow> \<not> os_path_exists w pb \<longrightarrow>
      bivar srv cat feature_a feature_b w_b = (Inr (pb, z), w_b) \<and>
      os_path_exists w_b pb \<and>
      calls w_b = calls w @ [\<lparr>get_url = url_server @ ''/graph_bivar'',
                              get_params = [(''feature_1'', PStr feature_a),
                                            (''feature_2'', PStr feature_b)],
                              get_stream = True, get_timeout = Some 60\<rparr>])"
  using global_impact_twice [of srv max_feat w pg w_g srv]
    local_impact_twice [of srv client_id max_feat w pl w_l srv]
    feature_twice [of srv cat client_id feature w pf w_f srv]
    bivar_twice [of srv cat feature_a feature_b w pb z w_b srv]
  by blast

theorem fetch_twice_one_remote_call_witness:
  "(\<exists>p w1. graph_features_global_impact srv_ok 20 empty_world = (Inr p, w1) \<and>
       \<not> os_path_exists empty_world p \<and>
       graph_features_global_impact srv_ok 20 w1 = (Inr p, w1) \<and> length (calls w1) = 1) \<and>
   (\<exists>p w1. graph_features_local_impact srv_ok 100001 20 empty_world = (Inr p, w1) \<and>
       \<not> os_path_exists empty_world p \<and>
       graph_features_local_impact srv_ok 100001 20 w1 = (Inr p, w1) \<and> length (calls w1) = 1) \<and>
   (\<exists>p w1. graph_feature srv_ok demo_catalog 100001 ''EDUCATION'' empty_world = (Inr p, w1) \<and>
       \<not> os_path_exists empty_world p \<and>
       graph_feature srv_ok demo_catalog 100001 ''EDUCATION'' w1 = (Inr p, w1) \<and>
       length (calls w1) = 1) \<and>
   (\<exists>p z w1. bivar srv_ok demo_catalog ''EDUCATION'' ''AGE'' empty_world = (Inr (p, z), w1) \<and>
       \<not> os_path_exists empty_world p \<and>
       bivar srv_ok demo_catalog ''EDUCATION'' ''AGE'' w1 = (Inr (p, z), w1) \<and>
       length (calls w1) = 1)"
proof -
  let ?wg = "snd (graph_features_global_impact srv_ok 20 empty_world)"
  let ?wl = "snd (graph_features_local_impact srv_ok 100001 20 empty_world)"
  let ?wf = "snd (graph_feature srv_ok demo_catalog 100001 ''EDUCATION'' empty_world)"
  let ?wb = "snd (bivar srv_ok demo_catalog ''EDUCATION'' ''AGE'' empty_world)"
  note t = fetch_twice_one_remote_call [where srv = srv_ok and w = empty_world
      and max_feat = 20 and client_id = 100001 and cat = demo_catalog
      and feature = "''EDUCATION''" and feature_a = "''EDUCATION''" and feature_b = "''AGE''"
      and pg = "''./data/tmp/gfgi_20.png''" and w_g = ?wg
      and pl = "''./data/tmp/gfli_100001_20.png''" and w_l = ?wl
      and pf = "''./data/tmp/feature_100001_1.png''" and w_f = ?wf
      and pb = "''./data/tmp/bivar1_0.png''" and z = "''large''" and w_b = ?wb]
  have c: "calls empty_world = []" by (simp add: empty_world_def)
  have hg: "graph_features_global_impact srv_ok 20 empty_world = (Inr ''./data/tmp/gfgi_20.png'', ?wg)"
    by (simp add: global_impact_demo_cold)
  have hl: "graph_features_local_impact srv_ok 100001 20 empty_world
              = (Inr ''./data/tmp/gfli_100001_20.png'', ?wl)"
    by (simp add: local_impact_demo_cold)
  have hf: "graph_feature srv_ok demo_catalog 100001 ''EDUCATION'' empty_world
              = (Inr ''./data/tmp/feature_100001_1.png'', ?wf)"
    by (simp add: feature_demo_cold)
  have hb: "bivar srv_ok demo_catalog ''EDUCATION'' ''AGE'' empty_world
              = (Inr (''./data/tmp/bivar1_0.png'', ''large''), ?wb)"
    by (simp add: bivar_demo_cold)
  from t hg demo_cold_absent
  have g: "graph_features_global_impact srv_ok 20 ?wg = (Inr ''./data/tmp/gfgi_20.png'', ?wg) \<and>
           length (calls ?wg) = 1"
    by (simp add: c)
  from t hl demo_cold_absent
  have l: "graph_features_local_impact srv_ok 100001 20 ?wl
             = (Inr ''./data/tmp/gfli_100001_20.png'', ?wl) \<and> length (calls ?wl) = 1"
    by (simp add: c)
  from t hf demo_cold_absent
  have f: "graph_feature srv_ok demo_catalog 100001 ''EDUCATION'' ?wf
             = (Inr ''./data/tmp/feature_100001_1.png'', ?wf) \<and> length (calls ?wf) = 1"
    by (simp add: c)
  from t hb demo_cold_absent
  have b: "bivar srv_ok demo_catalog ''EDUCATION'' ''AGE'' ?wb
             = (Inr (''./data/tmp/bivar1_0.png'', ''large''), ?wb) \<and> length (calls ?wb) = 1"
    by (simp add: c)
  show ?thesis
    using hg g hl l hf f hb b demo_cold_absent by blast
qed

subsection \<open>The two orders of a bivariate pair\<close>

text \<open>
  Claim C1. For two distinct features of the catalog, when the request for (a, b) returns
  a path that was not stored before, the request for (b, a) that follows returns the same
  path and changes nothing: one streamed request has been issued in all, one file has been
  added to the store, and it is the file both requests return. The file keeps the name of
  the first request: nothing is stored under the name of the reverse order. In general
  \<^verbatim>\<open>bivar\<close> looks for the name in the order given first, then for the name in the
  reverse order, and returns the one it finds.
\<close>

theorem bivar_symmetry_collapse:
  assumes "feature_a \<in> set (features_list cat)" and "feature_b \<in> set (features_list cat)"
    and "feature_a \<noteq> feature_b"
    and "bivar srv cat feature_a feature_b w = (Inr (p, z), w1)"
    and "\<not> os_path_exists w p"
  shows "bivar srv cat feature_b feature_a w1 = (Inr (p, z), w1) \<and>
         calls w1 = calls w @ [\<lparr>get_url = url_server @ ''/graph_bivar'',
                                 get_params = [(''feature_1'', PStr feature_a),
                                               (''feature_2'', PStr feature_b)],
                                 get_stream = True, get_timeout = Some 60\<rparr>] \<and>
         (\<forall>q. os_path_exists w1 q \<longleftrightarrow> q = p \<or> os_path_exists w q) \<and>
         (\<exists>i j. list_index (features_list cat) feature_a = Inr i \<and>
                list_index (features_list cat) feature_b = Inr j \<and>
                p = bivar_png i j \<and> bivar_png j i \<noteq> p \<and>
                \<not> os_path_exists w1 (bivar_png j i) \<and>
                (\<forall>w0. os_path_exists w0 (bivar_png j i) \<longrightarrow>
                   bivar srv cat feature_b feature_a w0
                     = (Inr (bivar_png j i, img_size_of cat feature_b feature_a), w0)) \<and>
                (\<forall>w0. \<not> os_path_exists w0 (bivar_png j i) \<longrightarrow> os_path_exists w0 (bivar_png i j) \<longrightarrow>
                   bivar srv cat feature_b feature_a w0
                     = (Inr (bivar_png i j, img_size_of cat feature_b feature_a), w0)))"
proof -
  have s: "bivar srv cat feature_b feature_a w1 = (Inr (p, z), w1)"
    using bivar_swapped [OF assms(4,5)] .
  have c: "calls w1 = calls w @ [\<lparr>get_url = url_server @ ''/graph_bivar'',
                                 get_params = [(''feature_1'', PStr feature_a),
                                               (''feature_2'', PStr feature_b)],
                                 get_stream = True, get_timeout = Some 60\<rparr>]"
    using bivar_twice [OF assms(4,5), of srv] by blast
  have o: "\<forall>q. os_path_exists w1 q \<longleftrightarrow> q = p \<or> os_path_exists w q"
    using bivar_one_blob [OF assms(4,5)] by blast
  from bivar_not_rekeyed [OF assms(4,5,3)] obtain i j where
    i: "list_index (features_list cat) feature_a = Inr i"
    and j: "list_index (features_list cat) feature_b = Inr j"
    and k: "p = bivar_png i j" "bivar_png j i \<noteq> p" "\<not> os_path_exists w1 (bivar_png j i)"
    by blast
  have h1: "\<forall>w0. os_path_exists w0 (bivar_png j i) \<longrightarrow>
                   bivar srv cat feature_b feature_a w0
                     = (Inr (bivar_png j i, img_size_of cat feature_b feature_a), w0)"
    using bivar_hit_primary [OF j i] by blast
  have h2: "\<forall>w0. \<not> os_path_exists w0 (bivar_png j i) \<longrightarrow> os_path_exists w0 (bivar_png i j) \<longrightarrow>
                   bivar srv cat feature_b feature_a w0
                     = (Inr (bivar_png i j, img_size_of cat feature_b feature_a), w0)"
    using bivar_hit_alternate [OF j i] by blast
  from i j k h1 h2 have
    "\<exists>i j. list_index (features_list cat) feature_a = Inr i \<and>
                list_index (features_list cat) feature_b = Inr j \<and>
                p = bivar_png i j \<and> bivar_png j i \<noteq> p \<and>
                \<not> os_path_exists w1 (bivar_png j i) \<and>
                (\<forall>w0. os_path_exists w0 (bivar_png j i) \<longrightarrow>
                   bivar srv cat feature_b feature_a w0
                     = (Inr (bivar_png j i, img_size_of cat feature_b feature_a), w0)) \<and>
                (\<forall>w0. \<not> os_path_exists w0 (bivar_png j i) \<longrightarrow> os_path_exists w0 (bivar_png i j) \<longrightarrow>
                   bivar srv cat feature_b feature_a w0
                     = (Inr (bivar_png i j, img_size_of cat feature_b feature_a), w0))"
    by blast
  with s c o show ?thesis by blast
qed

theorem bivar_symmetry_collapse_witness:
  "''EDUCATION'' \<in> set (features_list demo_catalog) \<and> ''AGE'' \<in> set (features_list demo_catalog) \<and>
   (\<exists>w1. bivar srv_ok demo_catalog ''EDUCATION'' ''AGE'' empty_world
            = (Inr (''./data/tmp/bivar1_0.png'', ''large''), w1) \<and>
          \<not> os_path_exists empty_world ''./data/tmp/bivar1_0.png'' \<and>
          bivar srv_ok demo_catalog ''AGE'' ''EDUCATION'' w1
            = (Inr (''./data/tmp/bivar1_0.png'', ''large''), w1) \<and>
          length (calls w1) = 1 \<and>
          os_path_exists w1 ''./data/tmp/bivar1_0.png'' \<and>
          \<not> os_path_exists w1 ''./data/tmp/bivar0_1.png'') \<and>
   (\<exists>w2. os_path_exists w2 ''./data/tmp/bivar0_1.png'' \<and>
          bivar srv_ok demo_catalog ''AGE'' ''EDUCATION'' w2
            = (Inr (''./data/tmp/bivar0_1.png'', ''large''), w2))"
proof -
  let ?w1 = "snd (bivar srv_ok demo_catalog ''EDUCATION'' ''AGE'' empty_world)"
  have m: "''EDUCATION'' \<in> set (features_list demo_catalog)"
    "''AGE'' \<in> set (features_list demo_catalog)" "''EDUCATION'' \<noteq> ''AGE''"
    by (simp_all add: demo_catalog_def)
  have h: "bivar srv_ok demo_catalog ''EDUCATION'' ''AGE'' empty_world
             = (Inr (''./data/tmp/bivar1_0.png'', ''large''), ?w1)"
    by (simp add: bivar_demo_cold)
  have c: "calls empty_world = []" by (simp add: empty_world_def)
  note t = bivar_symmetry_collapse [OF m h demo_cold_absent]
  from t have s: "bivar srv_ok demo_catalog ''AGE'' ''EDUCATION'' ?w1
            = (Inr (''./data/tmp/bivar1_0.png'', ''large''), ?w1)" by blast
  from t have l: "length (calls ?w1) = 1" by (simp add: c)
  from t have e: "os_path_exists ?w1 ''./data/tmp/bivar1_0.png''" by blast
  from t have n: "\<not> os_path_exists ?w1 ''./data/tmp/bivar0_1.png''"
    using demo_cold_absent by (simp add: demo_index demo_png)
  let ?w2 = "snd (bivar srv_ok demo_catalog ''AGE'' ''EDUCATION'' empty_world)"
  have e2: "os_path_exists ?w2 ''./data/tmp/bivar0_1.png''"
    by (simp add: bivar_demo_cold_swapped os_path_exists_def)
  from t obtain i j where
    i: "list_index (features_list demo_catalog) ''EDUCATION'' = Inr i"
    and j: "list_index (features_list demo_catalog) ''AGE'' = Inr j"
    and p: "\<forall>w0. os_path_exists w0 (bivar_png j i) \<longrightarrow>
                   bivar srv_ok demo_catalog ''AGE'' ''EDUCATION'' w0
                     = (Inr (bivar_png j i, img_size_of demo_catalog ''AGE'' ''EDUCATION''), w0)"
    by blast
  from i j have "i = Suc 0" "j = 0" by (simp_all add: demo_index)
  with p e2 have r: "bivar srv_ok demo_catalog ''AGE'' ''EDUCATION'' ?w2
            = (Inr (''./data/tmp/bivar0_1.png'', ''large''), ?w2)"
    by (simp add: demo_png demo_img_size)
  show ?thesis using m h s l e n e2 r demo_cold_absent by blast
qed

subsection \<open>Failures of a streamed request\<close>

text \<open>
  A transfer that breaks off after two bytes makes \<^verbatim>\<open>graph_features_global_impact\<close> and
  \<^verbatim>\<open>bivar\<close> raise the timeout and leaves a file of two bytes under the name of the image,
  which was absent before; an answer with status 500 is stored as if it were the image.
\<close>

theorem stream_failure_leaves_file:
  "\<not> os_path_exists empty_world ''./data/tmp/gfgi_20.png'' \<and>
   fst (graph_features_global_impact srv_timeout_midway 20 empty_world) = Inl Timeout \<and>
   os_path_exists (snd (graph_features_global_impact srv_timeout_midway 20 empty_world))
     ''./data/tmp/gfgi_20.png'' \<and>
   files (snd (graph_features_global_impact srv_timeout_midway 20 empty_world))
     ''./data/tmp/gfgi_20.png'' = Some ''PN'' \<and>
   fst (graph_features_global_impact srv_error_500 20 empty_world) = Inr ''./data/tmp/gfgi_20.png'' \<and>
   files (snd (graph_features_global_impact srv_error_500 20 empty_world))
     ''./data/tmp/gfgi_20.png'' = Some ''Internal Server Error'' \<and>
   \<not> os_path_exists empty_world ''./data/tmp/bivar1_0.png'' \<and>
   fst (bivar srv_timeout_midway demo_catalog ''EDUCATION'' ''AGE'' empty_world) = Inl Timeout \<and>
   os_path_exists (snd (bivar srv_timeout_midway demo_catalog ''EDUCATION'' ''AGE'' empty_world))
     ''./data/tmp/bivar1_0.png''"
  unfolding global_impact_demo_broken global_impact_demo_500 bivar_demo_broken
  by (simp add: os_path_exists_def empty_world_def)

text \<open>
  Claim C3, as the code has it. On a miss, each of the four cached fetches behaves as
  follows. When \<^verbatim>\<open>requests.get\<close> itself raises (a timeout or a connection failure
  before there is a response), the exception is passed on and the files are as before, so
  nothing is stored under the name of the image. Once there is a response, the file is
  created under the name of the image and holds the bytes that were read, whatever the
  status of the response, and also when the read raises in the middle of the body; the
  exception of the read is passed on.
\<close>

theorem stream_failure_store:
  "(\<not> os_path_exists w (tmp @ ''gfgi_'' @ str_int max_feat @ ''.png'') \<longrightarrow>
      (srv (calls w) \<lparr>get_url = url_server @ ''/global_impact'',
                       get_params = [(''max_feat'', PInt max_feat)],
                       get_stream = True, get_timeout = Some timeout\<rparr> = Raises e \<longrightarrow>
         fst (graph_features_global_impact srv max_feat w) = Inl e \<and>
         files (snd (graph_features_global_impact srv max_feat w)) = files w \<and>
         \<not> os_path_exists (snd (graph_features_global_impact srv max_feat w))
             (tmp @ ''gfgi_'' @ str_int max_feat @ ''.png'')) \<and>
      (srv (calls w) \<lparr>get_url = url_server @ ''/global_impact'',
                       get_params = [(''max_feat'', PInt max_feat)],
                       get_stream = True, get_timeout = Some timeout\<rparr> = Responds r \<longrightarrow>
         fst (graph_features_global_impact srv max_feat w)
           = (case r_raw_error r of None \<Rightarrow> Inr (tmp @ ''gfgi_'' @ str_int max_feat @ ''.png'')
                                  | Some e' \<Rightarrow> Inl e') \<and>
         files (snd (graph_features_global_impact srv max_feat w))
             (tmp @ ''gfgi_'' @ str_int max_feat @ ''.png'') = Some (r_raw r))) \<and>
   (\<not> os_path_exists w (tmp @ ''gfli_'' @ str_int client_id @ ''_'' @ str_int max_feat @ ''.png'') \<longrightarrow>
      (srv (calls w) \<lparr>get_url = url_server @ ''/'' @ str_int client_id @ ''/local_impact'',
                       get_params = [(''max_feat'', PInt max_feat)],
                       get_stream = True, get_timeout = Some timeout\<rparr> = Raises e \<longrightarrow>
         fst (graph_features_local_impact srv client_id max_feat w) = Inl e \<and>
         files (snd (graph_features_local_impact srv client_id max_feat w)) = files w \<and>
         \<not> os_path_exists (snd (graph_features_local_impact srv client_id max_feat w))
             (tmp @ ''gfli_'' @ str_int client_id @ ''_'' @ str_int max_feat @ ''.png'')) \<and>
      (srv (calls w) \<lparr>get_url = url_server @ ''/'' @ str_int client_id @ ''/local_impact'',
                       get_params = [(''max_feat'', PInt max_feat)],
                       get_stream = True, get_timeout = Some timeout\<rparr> = Responds r \<longrightarrow>
         fst (graph_features_local_impact srv client_id max_feat w)
           = (case r_raw_error r of
                None \<Rightarrow> Inr (tmp @ ''gfli_'' @ str_int client_id @ ''_'' @ str_int max_feat @ ''.png'')
              | Some e' \<Rightarrow> Inl e') \<and>
         files (snd (graph_features_local_impact srv client_id max_feat w))
             (tmp @ ''gfli_'' @ str_int client_id @ ''_'' @ str_int max_feat @ ''.png'')
           = Some (r_raw r))) \<and>
   (list_index (features_list cat) feature = Inr f_idx \<longrightarrow>
    \<not> os_path_exists w (tmp @ ''feature_'' @ str_int client_id @ ''_'' @ str_nat f_idx @ ''.png'') \<longrightarrow>
      (srv (calls w) \<lparr>get_url = url_server @ ''/'' @ str_int client_id @ ''/feature'',
                       get_params = [(''feature'', PStr feature)],
                       get_stream = True, get_timeout = Some timeout\<rparr> = Raises e \<longrightarrow>
         fst (graph_feature srv cat client_id feature w) = Inl e \<and>
         files (snd (graph_feature srv cat client_id feature w)) = files w \<and>
         \<not> os_path_exists (snd (graph_feature srv cat client_id feature w))
             (tmp @ ''feature_'' @ str_int client_id @ ''_'' @ str_nat f_idx @ ''.png'')) \<and>
      (srv (calls w) \<lparr>get_url = url_server @ ''/'' @ str_int client_id @ ''/feature'',
                       get_params = [(''feature'', PStr feature)],
                       get_stream = True, get_timeout = Some timeout\<rparr> = Responds r \<longrightarrow>
         fst (graph_feature srv cat client_id feature w)
           = (case r_raw_error r of
                None \<Rightarrow> Inr (tmp @ ''feature_'' @ str_int client_id @ ''_'' @ str_nat f_idx @ ''.png'')
              | Some e' \<Rightarrow> Inl e') \<and>
         files (snd (graph_feature srv cat client_id feature w))
             (tmp @ ''feature_'' @ str_int client_id @ ''_'' @ str_nat f_idx @ ''.png'')
           = Some (r_raw r))) \<and>
   (list_index (features_list cat) feature_a = Inr i \<longrightarrow>
    list_index (features_list cat) feature_b = Inr j \<longrightarrow>
    \<not> os_path_exists w (bivar_png i j) \<longrightarrow> \<not> os_path_exists w (bivar_png j i) \<longrightarrow>
      (srv (calls w) \<lparr>get_url = url_server @ ''/graph_bivar'',
                       get_params = [(''feature_1'', PStr feature_a), (''feature_2'', PStr feature_b)],
                       get_stream = True, get_timeout = Some 60\<rparr> = Raises e \<longrightarrow>
         fst (bivar srv cat feature_a feature_b w) = Inl e \<and>
         files (snd (bivar srv cat feature_a feature_b w)) = files w \<and>
         \<not> os_path_exists (snd (bivar srv cat feature_a feature_b w)) (bivar_png i j)) \<and>
      (srv (calls w) \<lparr>get_url = url_server @ ''/graph_bivar'',
                       get_params = [(''feature_1'', PStr feature_a), (''feature_2'', PStr feature_b)],
                       get_stream = True, get_timeout = Some 60\<rparr> = Responds r \<longrightarrow>
         fst (bivar srv cat feature_a feature_b w)
           = (case r_raw_error r of
                None \<Rightarrow> Inr (bivar_png i j, img_size_of cat feature_a feature_b)
              | Some e' \<Rightarrow> Inl e') \<and>
         files (snd (bivar srv cat feature_a feature_b w)) (bivar_png i j) = Some (r_raw r)))"
proof (intro conjI impI)
  assume m: "\<not> os_path_exists w (tmp @ ''gfgi_'' @ str_int max_feat @ ''.png'')"
  {
    assume s: "srv (calls w) \<lparr>get_url = url_server @ ''/global_impact'',
                       get_params = [(''max_feat'', PInt max_feat)],
                       get_stream = True, get_timeout = Some timeout\<rparr> = Raises e"
    show "fst (graph_features_global_impact srv max_feat w) = Inl e"
      and "files (snd (graph_features_global_impact srv max_feat w)) = files w"
      and "\<not> os_path_exists (snd (graph_features_global_impact srv max_feat w))
             (tmp @ ''gfgi_'' @ str_int max_feat @ ''.png'')"
      using m unfolding global_impact_miss [OF m] s by (simp_all add: os_path_exists_def)
  }
  {
    assume s: "srv (calls w) \<lparr>get_url = url_server @ ''/global_impact'',
                       get_params = [(''max_feat'', PInt max_feat)],
                       get_stream = True, get_timeout = Some timeout\<rparr> = Responds r"
    show "fst (graph_features_global_impact srv max_feat w)
           = (case r_raw_error r of None \<Rightarrow> Inr (tmp @ ''gfgi_'' @ str_int max_feat @ ''.png'')
                                  | Some e' \<Rightarrow> Inl e')"
      and "files (snd (graph_features_global_impact srv max_feat w))
             (tmp @ ''gfgi_'' @ str_int max_feat @ ''.png'') = Some (r_raw r)"
      unfolding global_impact_miss [OF m] s by simp_all
  }
next
  assume m: "\<not> os_path_exists w (tmp @ ''gfli_'' @ str_int client_id @ ''_'' @ str_int max_feat @ ''.png'')"
  {
    assume s: "srv (calls w) \<lparr>get_url = url_server @ ''/'' @ str_int client_id @ ''/local_impact'',
                       get_params = [(''max_feat'', PInt max_feat)],
                       get_stream = True, get_timeout = Some timeout\<rparr> = Raises e"
    show "fst (graph_features_local_impact srv client_id max_feat w) = Inl e"
      and "files (snd (graph_features_local_impact srv client_id max_feat w)) = files w"
      and "\<not> os_path_exists (snd (graph_features_local_impact srv client_id max_feat w))
             (tmp @ ''gfli_'' @ str_int client_id @ ''_'' @ str_int max_feat @ ''.png'')"
      using m unfolding local_impact_miss [OF m] s by (simp_all add: os_path_exists_def)
  }
  {
    assume s: "srv (calls w) \<lparr>get_url = url_server @ ''/'' @ str_int client_id @ ''/local_impact'',
                       get_params = [(''max_feat'', PInt max_feat)],
                       get_stream = True, get_timeout = Some timeout\<rparr> = Responds r"
    show "fst (graph_features_local_impact srv client_id max_feat w)
           = (case r_raw_error r of
                None \<Rightarrow> Inr (tmp @ ''gfli_'' @ str_int client_id @ ''_'' @ str_int max_feat @ ''.png'')
              | Some e' \<Rightarrow> Inl e')"
      and "files (snd (graph_features_local_impact srv client_id max_feat w))
             (tmp @ ''gfli_'' @ str_int client_id @ ''_'' @ str_int max_feat @ ''.png'')
           = Some (r_raw r)"
      unfolding local_impact_miss [OF m] s by simp_all
  }
next
  assume i: "list_index (features_list cat) feature = Inr f_idx"
    and m: "\<not> os_path_exists w (tmp @ ''feature_'' @ str_int client_id @ ''_'' @ str_nat f_idx @ ''.png'')"
  {
    assume s: "srv (calls w) \<lparr>get_url = url_server @ ''/'' @ str_int client_id @ ''/feature'',
                       get_params = [(''feature'', PStr feature)],
                       get_stream = True, get_timeout = Some timeout\<rparr> = Raises e"
    show "fst (graph_feature srv cat client_id feature w) = Inl e"
      and "files (snd (graph_feature srv cat client_id feature w)) = files w"
      and "\<not> os_path_exists (snd (graph_feature srv cat client_id feature w))
             (tmp @ ''feature_'' @ str_int client_id @ ''_'' @ str_nat f_idx @ ''.png'')"
      using m unfolding feature_miss [OF i m] s by (simp_all add: os_path_exists_def)
  }
  {
    assume s: "srv (calls w) \<lparr>get_url = url_server @ ''/'' @ str_int client_id @ ''/feature'',
                       get_params = [(''feature'', PStr feature)],
                       get_stream = True, get_timeout = Some timeout\<rparr> = Responds r"
    show "fst (graph_feature srv cat client_id feature w)
           = (case r_raw_error r of
                None \<Rightarrow> Inr (tmp @ ''feature_'' @ str_int client_id @ ''_'' @ str_nat f_idx @ ''.png'')
              | Some e' \<Rightarrow> Inl e')"
      and "files (snd (graph_feature srv cat client_id feature w))
             (tmp @ ''feature_'' @ str_int client_id @ ''_'' @ str_nat f_idx @ ''.png'')
           = Some (r_raw r)"
      unfolding feature_miss [OF i m] s by simp_all
  }
next
  assume i: "list_index (features_list cat) feature_a = Inr i"
    and j: "list_index (features_list cat) feature_b = Inr j"
    and m1: "\<not> os_path_exists w (bivar_png i j)" and m2: "\<not> os_path_exists w (bivar_png j i)"
  {
    assume s: "srv (calls w) \<lparr>get_url = url_server @ ''/graph_bivar'',
                       get_params = [(''feature_1'', PStr feature_a), (''feature_2'', PStr feature_b)],
                       get_stream = True, get_timeout = Some 60\<rparr> = Raises e"
    show "fst (bivar srv cat feature_a feature_b w) = Inl e"
      and "files (snd (bivar srv cat feature_a feature_b w)) = files w"
      and "\<not> os_path_exists (snd (bivar srv cat feature_a feature_b w)) (bivar_png i j)"
      using m1 unfolding bivar_miss [OF i j m1 m2] s by (simp_all add: os_path_exists_def)
  }
  {
    assume s: "srv (calls w) \<lparr>get_url = url_server @ ''/graph_bivar'',
                       get_params = [(''feature_1'', PStr feature_a), (''feature_2'', PStr feature_b)],
                       get_stream = True, get_timeout = Some 60\<rparr> = Responds r"
    show "fst (bivar srv cat feature_a feature_b w)
           = (case r_raw_error r of
                None \<Rightarrow> Inr (bivar_png i j, img_size_of cat feature_a feature_b)
              | Some e' \<Rightarrow> Inl e')"
      and "files (snd (bivar srv cat feature_a feature_b w)) (bivar_png i j) = Some (r_raw r)"
      unfolding bivar_miss [OF i j m1 m2] s by simp_all
  }
qed

theorem stream_failure_store_witness:
  "fst (graph_features_global_impact srv_down 20 empty_world) = Inl Timeout \<and>
   \<not> os_path_exists (snd (graph_features_global_impact srv_down 20 empty_world))
       ''./data/tmp/gfgi_20.png'' \<and>
   fst (graph_features_local_impact srv_down 100001 20 empty_world) = Inl Timeout \<and>
   \<not> os_path_exists (snd (graph_features_local_impact srv_down 100001 20 empty_world))
       ''./data/tmp/gfli_100001_20.png'' \<and>
   fst (graph_feature srv_down demo_catalog 100001 ''EDUCATION'' empty_world) = Inl Timeout \<and>
   \<not> os_path_exists (snd (graph_feature srv_down demo_catalog 100001 ''EDUCATION'' empty_world))
       ''./data/tmp/feature_100001_1.png'' \<and>
   fst (bivar srv_down demo_catalog ''EDUCATION'' ''AGE'' empty_world) = Inl Timeout \<and>
   \<not> os_path_exists (snd (bivar srv_down demo_catalog ''EDUCATION'' ''AGE'' empty_world))
       ''./data/tmp/bivar1_0.png'' \<and>
   fst (graph_features_global_impact srv_timeout_midway 20 empty_world) = Inl Timeout \<and>
   files (snd (graph_features_global_impact srv_timeout_midway 20 empty_world))
       ''./data/tmp/gfgi_20.png'' = Some ''PN'' \<and>
   fst (bivar srv_timeout_midway demo_catalog ''EDUCATION'' ''AGE'' empty_world) = Inl Timeout \<and>
   files (snd (bivar srv_timeout_midway demo_catalog ''EDUCATION'' ''AGE'' empty_world))
       ''./data/tmp/bivar1_0.png'' = Some ''PN''"
proof -
  let ?r = "\<lparr>status_code = 200, r_raw = ''PN'', r_raw_error = Some Timeout,
             r_json = Inl JSONDecodeError\<rparr>"
  note down = stream_failure_store [where srv = srv_down and w = empty_world and e = Timeout
      and max_feat = 20 and client_id = 100001 and cat = demo_catalog
      and feature = "''EDUCATION''" and f_idx = "Suc 0"
      and feature_a = "''EDUCATION''" and feature_b = "''AGE''" and i = "Suc 0" and j = 0]
  note broken = stream_failure_store [where srv = srv_timeout_midway and w = empty_world
      and r = ?r and max_feat = 20 and cat = demo_catalog
      and feature_a = "''EDUCATION''" and feature_b = "''AGE''" and i = "Suc 0" and j = 0]
  have d: "\<And>rq. srv_down (calls empty_world) rq = Raises Timeout"
    by (simp add: srv_down_def)
  have b: "\<And>rq. srv_timeout_midway (calls empty_world) rq = Responds ?r"
    by (simp add: srv_timeout_midway_def)
  have k: "tmp @ ''gfgi_'' @ str_int 20 @ ''.png'' = ''./data/tmp/gfgi_20.png''"
    "tmp @ ''gfli_'' @ str_int 100001 @ ''_'' @ str_int 20 @ ''.png''
       = ''./data/tmp/gfli_100001_20.png''"
    "tmp @ ''feature_'' @ str_int 100001 @ ''_'' @ str_nat (Suc 0) @ ''.png''
       = ''./data/tmp/feature_100001_1.png''"
    by (simp_all add: demo_strs tmp_def data_path_def)
  have g1: "fst (graph_features_global_impact srv_down 20 empty_world) = Inl Timeout \<and>
      \<not> os_path_exists (snd (graph_features_global_impact srv_down 20 empty_world))
          (tmp @ ''gfgi_'' @ str_int 20 @ ''.png'')"
    using down demo_cold_absent d by blast
  have l1: "fst (graph_features_local_impact srv_down 100001 20 empty_world) = Inl Timeout \<and>
      \<not> os_path_exists (snd (graph_features_local_impact srv_down 100001 20 empty_world))
          (tmp @ ''gfli_'' @ str_int 100001 @ ''_'' @ str_int 20 @ ''.png'')"
    using down demo_cold_absent d by blast
  have f1: "fst (graph_feature srv_down demo_catalog 100001 ''EDUCATION'' empty_world) = Inl Timeout \<and>
      \<not> os_path_exists (snd (graph_feature srv_down demo_catalog 100001 ''EDUCATION'' empty_world))
          (tmp @ ''feature_'' @ str_int 100001 @ ''_'' @ str_nat (Suc 0) @ ''.png'')"
    using down demo_cold_absent d demo_index by blast
  have b1: "fst (bivar srv_down demo_catalog ''EDUCATION'' ''AGE'' empty_world) = Inl Timeout \<and>
      \<not> os_path_exists (snd (bivar srv_down demo_catalog ''EDUCATION'' ''AGE'' empty_world))
          (bivar_png (Suc 0) 0)"
    using down demo_cold_absent d demo_index by blast
  have g2: "fst (graph_features_global_impact srv_timeout_midway 20 empty_world)
        = (case r_raw_error ?r of None \<Rightarrow> Inr (tmp @ ''gfgi_'' @ str_int 20 @ ''.png'')
                                | Some e' \<Rightarrow> Inl e') \<and>
      files (snd (graph_features_global_impact srv_timeout_midway 20 empty_world))
          (tmp @ ''gfgi_'' @ str_int 20 @ ''.png'') = Some (r_raw ?r)"
    using broken demo_cold_absent b by blast
  have b2: "fst (bivar srv_timeout_midway demo_catalog ''EDUCATION'' ''AGE'' empty_world)
        = (case r_raw_error ?r of
             None \<Rightarrow> Inr (bivar_png (Suc 0) 0, img_size_of demo_catalog ''EDUCATION'' ''AGE'')
           | Some e' \<Rightarrow> Inl e') \<and>
      files (snd (bivar srv_timeout_midway demo_catalog ''EDUCATION'' ''AGE'' empty_world))
          (bivar_png (Suc 0) 0) = Some (r_raw ?r)"
    using broken demo_cold_absent b demo_index by blast
  show ?thesis
    using g1 [unfolded k] l1 [unfolded k] f1 [unfolded k] b1 [unfolded demo_png]
      g2 [unfolded k] b2 [unfolded demo_png]
    by simp
qed

subsection \<open>The number of features of the global impact\<close>

text \<open>
  With \<^verbatim>\<open>max_feat = 3\<close>, below the minimum of the slider, and nothing stored,
  \<^verbatim>\<open>graph_features_global_impact\<close> issues the request and returns the path of the
  image.
\<close>

theorem global_impact_three_is_fetched:
  "\<not> os_path_exists empty_world ''./data/tmp/gfgi_3.png'' \<and>
   fst (graph_features_global_impact srv_ok 3 empty_world) = Inr ''./data/tmp/gfgi_3.png'' \<and>
   calls (snd (graph_features_global_impact srv_ok 3 empty_world)) =
     [\<lparr>get_url = url_server @ ''/global_impact'', get_params = [(''max_feat'', PInt 3)],
       get_stream = True, get_timeout = Some timeout\<rparr>] \<and>
   files (snd (graph_features_global_impact srv_ok 3 empty_world)) ''./data/tmp/gfgi_3.png''
     = Some ''PNG''"
  unfolding global_impact_demo_three
  by (simp add: os_path_exists_def empty_world_def)

text \<open>
  Claim C6, as the code has it. \<^verbatim>\<open>graph_features_global_impact\<close> does not check
  \<^verbatim>\<open>max_feat\<close>: for every integer it returns the path when the file exists and issues
  the request with that value when it does not, and it fails only as the request or the
  transfer fails. The bounds 5 and 30 are those of the slider on line 224.
\<close>

theorem global_impact_no_range_check:
  "(os_path_exists w (tmp @ ''gfgi_'' @ str_int max_feat @ ''.png'') \<longrightarrow>
      graph_features_global_impact srv max_feat w
        = (Inr (tmp @ ''gfgi_'' @ str_int max_feat @ ''.png''), w)) \<and>
   (\<not> os_path_exists w (tmp @ ''gfgi_'' @ str_int max_feat @ ''.png'') \<longrightarrow>
      calls (snd (graph_features_global_impact srv max_feat w)) =
        calls w @ [\<lparr>get_url = url_server @ ''/global_impact'',
                     get_params = [(''max_feat'', PInt max_feat)],
                     get_stream = True, get_timeout = Some timeout\<rparr>]) \<and>
   (fst (graph_features_global_impact srv max_feat w) = Inl e \<longrightarrow>
      srv (calls w) \<lparr>get_url = url_server @ ''/global_impact'',
                      get_params = [(''max_feat'', PInt max_feat)],
                      get_stream = True, get_timeout = Some timeout\<rparr> = Raises e \<or>
      (\<exists>r. srv (calls w) \<lparr>get_url = url_server @ ''/global_impact'',
                           get_params = [(''max_feat'', PInt max_feat)],
                           get_stream = True, get_timeout = Some timeout\<rparr> = Responds r \<and>
           r_raw_error r = Some e))"
proof (intro conjI impI)
  assume h: "os_path_exists w (tmp @ ''gfgi_'' @ str_int max_feat @ ''.png'')"
  then show "graph_features_global_impact srv max_feat w
        = (Inr (tmp @ ''gfgi_'' @ str_int max_feat @ ''.png''), w)"
    by (rule global_impact_hit)
next
  assume m: "\<not> os_path_exists w (tmp @ ''gfgi_'' @ str_int max_feat @ ''.png'')"
  show "calls (snd (graph_features_global_impact srv max_feat w)) =
        calls w @ [\<lparr>get_url = url_server @ ''/global_impact'',
                     get_params = [(''max_feat'', PInt max_feat)],
                     get_stream = True, get_timeout = Some timeout\<rparr>]"
    unfolding global_impact_miss [OF m] by (simp split: reply.splits)
next
  assume f: "fst (graph_features_global_impact srv max_feat w) = Inl e"
  show "srv (calls w) \<lparr>get_url = url_server @ ''/global_impact'',
                      get_params = [(''max_feat'', PInt max_feat)],
                      get_stream = True, get_timeout = Some timeout\<rparr> = Raises e \<or>
      (\<exists>r. srv (calls w) \<lparr>get_url = url_server @ ''/global_impact'',
                           get_params = [(''max_feat'', PInt max_feat)],
                           get_stream = True, get_timeout = Some timeout\<rparr> = Responds r \<and>
           r_raw_error r = Some e)"
  proof (cases "os_path_exists w (tmp @ ''gfgi_'' @ str_int max_feat @ ''.png'')")
    case True
    with f show ?thesis by (simp add: global_impact_hit)
  next
    case False
    from f show ?thesis
      unfolding global_impact_miss [OF False]
      by (auto split: reply.splits option.splits)
  qed
qed

theorem global_impact_no_range_check_witness:
  "\<not> os_path_exists empty_world ''./data/tmp/gfgi_3.png'' \<and>
   calls (snd (graph_features_global_impact srv_ok 3 empty_world)) =
     [\<lparr>get_url = url_server @ ''/global_impact'', get_params = [(''max_feat'', PInt 3)],
       get_stream = True, get_timeout = Some timeout\<rparr>] \<and>
   os_path_exists (snd (graph_features_global_impact srv_ok 3 empty_world)) ''./data/tmp/gfgi_3.png'' \<and>
   graph_features_global_impact srv_ok 3 (snd (graph_features_global_impact srv_ok 3 empty_world))
     = (Inr ''./data/tmp/gfgi_3.png'', snd (graph_features_global_impact srv_ok 3 empty_world)) \<and>
   fst (graph_features_global_impact srv_down 3 empty_world) = Inl Timeout"
proof -
  let ?w1 = "snd (graph_features_global_impact srv_ok 3 empty_world)"
  have k: "tmp @ ''gfgi_'' @ str_int 3 @ ''.png'' = ''./data/tmp/gfgi_3.png''"
    by (simp add: demo_strs tmp_def data_path_def)
  have c: "calls empty_world = []" by (simp add: empty_world_def)
  have a: "\<not> os_path_exists empty_world ''./data/tmp/gfgi_3.png''"
    by (rule demo_cold_absent)
  have e: "os_path_exists ?w1 ''./data/tmp/gfgi_3.png''"
    unfolding global_impact_demo_three by (simp add: os_path_exists_def)
  note cold = global_impact_no_range_check [where srv = srv_ok and max_feat = 3
      and w = empty_world, unfolded k c]
  note warm = global_impact_no_range_check [where srv = srv_ok and max_feat = 3
      and w = ?w1, unfolded k]
  note down = global_impact_no_range_check [where srv = srv_down and max_feat = 3
      and w = empty_world and e = Timeout, unfolded k c]
  have l: "calls ?w1 =
     [\<lparr>get_url = url_server @ ''/global_impact'', get_params = [(''max_feat'', PInt 3)],
       get_stream = True, get_timeout = Some timeout\<rparr>]"
    using cold a by simp
  have h: "graph_features_global_impact srv_ok 3 ?w1 = (Inr ''./data/tmp/gfgi_3.png'', ?w1)"
    using warm e by blast
  have d: "fst (graph_features_global_impact srv_down 3 empty_world) = Inl Timeout"
    unfolding global_impact_miss [OF demo_cold_absent] by (simp add: srv_down_def)
  have "srv_down [] \<lparr>get_url = url_server @ ''/global_impact'',
                      get_params = [(''max_feat'', PInt 3)],
                      get_stream = True, get_timeout = Some timeout\<rparr> = Raises Timeout"
    using down d by (simp add: srv_down_def)
  with a l e h d show ?thesis by blast
qed

end
